theory Spec2Isabelle
  imports Main
begin

section \<open>The utho-go client core\<close>

text \<open>
  The repository holds the shared HTTP client twice: the full client (the file with the
  eighteen resource services, default timeout 300 seconds, headers \<open>Content-Type\<close> and
  \<open>Accept-Encoding\<close>) and an older copy in the directory \<open>utho/\<close> (two services, default
  timeout 5 seconds, header \<open>X-Clerk-SDK\<close>). The functions \<open>toURLWithEndingSlash\<close>, \<open>Do\<close>
  and \<open>checkForErrors\<close> are the same text in both files and are embedded once. What
  differs is embedded twice: the constants of the copy in \<open>utho/\<close> carry the prefix
  \<open>utho_\<close>. The service \<open>ApiKeyService\<close> lives in \<open>utho/api_key.go\<close>, beside the older copy.

  Go's standard library (\<open>net/url\<close>, \<open>net/http\<close>, \<open>encoding/json\<close>) is not part of the
  repository. Its functions are parameters of the model, collected in the record
  \<open>stdlib\<close>; every theorem holds for each value of these parameters.
\<close>

subsection \<open>Values of the standard library\<close>

text \<open>\<open>time.Duration\<close> is a count of nanoseconds in a signed 64-bit integer.\<close>

type_synonym Duration = int

definition Second :: Duration where
  "Second = 1000000000"

definition Minute :: Duration where
  "Minute = 60 * Second"

text \<open>The fields of \<open>url.URL\<close>.\<close>

record Userinfo =
  username :: string
  password :: string
  passwordSet :: bool

record URL =
  Scheme :: string
  Opaque :: string
  User :: "Userinfo option"
  Host :: string
  Path :: string
  RawPath :: string
  OmitHost :: bool
  ForceQuery :: bool
  RawQuery :: string
  Fragment :: string
  RawFragment :: string

text \<open>
  \<open>http.Header\<close> is \<open>map[string][]string\<close>. \<open>Add\<close>, \<open>Set\<close> and \<open>Get\<close> work on the
  canonical form of the key (\<open>textproto.CanonicalMIMEHeaderKey\<close>): when every byte of the
  key is a token byte, the first letter and each letter after a hyphen is put in upper
  case and every other letter in lower case; any other key is left as it is.
\<close>

type_synonym Header = "string \<rightharpoonup> string list"

definition lower_letters :: string where
  "lower_letters = ''abcdefghijklmnopqrstuvwxyz''"

definition upper_letters :: string where
  "upper_letters = ''ABCDEFGHIJKLMNOPQRSTUVWXYZ''"

definition to_upper :: "char \<Rightarrow> char" where
  "to_upper c = (case map_of (zip lower_letters upper_letters) c of Some u \<Rightarrow> u | None \<Rightarrow> c)"

definition to_lower :: "char \<Rightarrow> char" where
  "to_lower c = (case map_of (zip upper_letters lower_letters) c of Some l \<Rightarrow> l | None \<Rightarrow> c)"

definition validHeaderFieldByte :: "char \<Rightarrow> bool" where
  "validHeaderFieldByte c \<longleftrightarrow>
     c \<in> set lower_letters \<or> c \<in> set upper_letters \<or> c \<in> set ''0123456789'' \<or>
     c \<in> set ''!#$%&*+-.^_`|~'' \<or> c = CHR 0x27"

fun canonicalMIMEHeaderKey :: "bool \<Rightarrow> string \<Rightarrow> string" where
  "canonicalMIMEHeaderKey upper [] = []"
| "canonicalMIMEHeaderKey upper (c # cs) =
     (let c' = (if upper then to_upper c else to_lower c)
      in c' # canonicalMIMEHeaderKey (c' = CHR ''-'') cs)"

definition CanonicalMIMEHeaderKey :: "string \<Rightarrow> string" where
  "CanonicalMIMEHeaderKey s =
     (if list_all validHeaderFieldByte s then canonicalMIMEHeaderKey True s else s)"

definition Header_Add :: "Header \<Rightarrow> string \<Rightarrow> string \<Rightarrow> Header" where
  "Header_Add h key val =
     (let k = CanonicalMIMEHeaderKey key
      in h(k \<mapsto> (case h k of None \<Rightarrow> [val] | Some vs \<Rightarrow> vs @ [val])))"

definition Header_Set :: "Header \<Rightarrow> string \<Rightarrow> string \<Rightarrow> Header" where
  "Header_Set h key val = h(CanonicalMIMEHeaderKey key \<mapsto> [val])"

definition Header_Values :: "Header \<Rightarrow> string \<Rightarrow> string list" where
  "Header_Values h key = (case h (CanonicalMIMEHeaderKey key) of None \<Rightarrow> [] | Some vs \<Rightarrow> vs)"

definition Header_Get :: "Header \<Rightarrow> string \<Rightarrow> string" where
  "Header_Get h key = (case Header_Values h key of [] \<Rightarrow> '''' | v # _ \<Rightarrow> v)"

text \<open>
  A request as \<open>http.NewRequest\<close> builds it: method, URL, header and body. The body is
  the content of the buffer handed to \<open>http.NewRequest\<close>, or \<open>None\<close> for the nil reader.
\<close>

record Request =
  Method :: string
  URL :: URL
  Header :: Header
  Body :: "string option"

text \<open>
  The body of a response is a stream. \<open>io.ReadAll\<close> either reads it to the end and
  returns its bytes, or stops at a read error.
\<close>

datatype body = Body_bytes string | Body_read_error string

record Response =
  StatusCode :: int
  Header :: Header
  Body :: "body option"

subsection \<open>Errors\<close>

text \<open>
  Modelled from the spec: the declaration of \<open>ErrorResponse\<close> is not among the source
  files. The code builds it as \<open>ErrorResponse{Response: resp}\<close>, decodes the JSON body
  into it and returns it as an \<open>error\<close>; the spec describes it as carrying the original
  response plus a decoded status and message pair.
\<close>

record ErrorResponse =
  Response :: Response
  Status :: string
  Message :: string

text \<open>
  The values of Go's interface \<open>error\<close> that occur: \<open>errorString\<close> is what
  \<open>errors.New\<close> returns (its \<open>Error()\<close> is the text given), \<open>lib_error\<close> is an error
  produced inside the standard library, \<open>ErrorResponse_error\<close> is a pointer to an
  \<open>ErrorResponse\<close>.
\<close>

datatype error =
    errorString string
  | lib_error string
  | ErrorResponse_error ErrorResponse

text \<open>A Go call either panics or returns.\<close>

datatype 'a go = Panic string | Return 'a

definition nil_dereference :: string where
  "nil_dereference = ''runtime error: invalid memory address or nil pointer dereference''"

definition io_ReadAll :: "body \<Rightarrow> error + string" where
  "io_ReadAll b = (case b of Body_bytes data \<Rightarrow> Inr data | Body_read_error msg \<Rightarrow> Inl (lib_error msg))"

definition HasSuffix :: "string \<Rightarrow> string \<Rightarrow> bool" where
  "HasSuffix s suffix \<longleftrightarrow>
     length suffix \<le> length s \<and> drop (length s - length suffix) s = suffix"

text \<open>
  \<open>json.Unmarshal(data, v)\<close> for a target of type \<open>'v\<close>: the target as the decoder leaves
  it (a decoder may have stored some fields before it fails) and the error, if any.
\<close>

type_synonym 'v unmarshal = "string \<Rightarrow> 'v \<Rightarrow> 'v \<times> error option"

text \<open>
  The parameters. \<open>url_Parse\<close> is \<open>url.Parse\<close>; \<open>ResolveReference\<close> and \<open>URL_String\<close> are
  the methods of \<open>url.URL\<close>; \<open>json_Encode escapeHTML p\<close> is what an \<open>json.Encoder\<close> with
  that escaping flag writes for the payload \<open>p\<close>; \<open>http_method_url\<close> is the validation
  done by \<open>http.NewRequest\<close> (the method, with \<open>GET\<close> for the empty one, and the parsed
  URL); \<open>json_Unmarshal_ErrorResponse\<close> is \<open>json.Unmarshal\<close> with a pointer to an
  \<open>ErrorResponse\<close> as its target: it is handed the whole struct and may write any of
  its fields; \<open>DefaultTransport\<close> is what \<open>(*http.Client).Do\<close> gives with no transport
  configured.
\<close>

record 'p stdlib =
  url_Parse :: "string \<Rightarrow> error + URL"
  ResolveReference :: "URL \<Rightarrow> URL \<Rightarrow> URL"
  URL_String :: "URL \<Rightarrow> string"
  json_Encode :: "bool \<Rightarrow> 'p \<Rightarrow> error + string"
  http_method_url :: "string \<Rightarrow> string \<Rightarrow> error + (string \<times> URL)"
  json_Unmarshal_ErrorResponse :: "ErrorResponse unmarshal"
  DefaultTransport :: "Request \<Rightarrow> error + Response"

text \<open>
  Modelled from the spec: the declaration of \<open>ErrorResponse\<close>, with the JSON tags of its
  fields, is not among the source files, so the source does not say whether the decoder
  may write the field \<open>Response\<close> (it may, for an exported field without the tag
  \<open>json:"-"\<close>, when the body names that field). The spec describes the error as the
  original response (status code and headers) plus a status and message pair decoded from
  the body: decoding does not touch the field \<open>Response\<close>. \<open>Response_kept\<close> says this of
  a decoder. It is a hypothesis wherever a theorem needs it, never a part of the model of
  \<open>checkForErrors\<close> or \<open>Do\<close>. The response is held by value: a decoder that wrote the
  field would write through the pointer into the response that \<open>Do\<close> returns, and for
  such a decoder the model says nothing about the error path.
\<close>

definition Response_kept :: "ErrorResponse unmarshal \<Rightarrow> bool" where
  "Response_kept dec \<longleftrightarrow>
     (\<forall>data e. ErrorResponse.Response (fst (dec data e)) = ErrorResponse.Response e)"

text \<open>\<open>(*url.URL).Parse\<close> parses the reference and resolves it against the receiver.\<close>

definition URL_Parse :: "'p stdlib \<Rightarrow> URL \<Rightarrow> string \<Rightarrow> error + URL" where
  "URL_Parse env u ref =
     (case url_Parse env ref of
        Inl err \<Rightarrow> Inl err
      | Inr refURL \<Rightarrow> Inr (ResolveReference env u refURL))"

text \<open>\<open>http.NewRequest\<close> allocates an empty header and wraps the body it is given.\<close>

definition http_NewRequest :: "'p stdlib \<Rightarrow> string \<Rightarrow> string \<Rightarrow> string option \<Rightarrow> error + Request" where
  "http_NewRequest env method url body =
     (case http_method_url env method url of
        Inl err \<Rightarrow> Inl err
      | Inr (m, u) \<Rightarrow> Inr \<lparr>Method = m, URL = u, Header = Map.empty, Body = body\<rparr>)"

text \<open>
  \<open>http.Client\<close>: its transport (\<open>None\<close> is the nil transport, which stands for
  \<open>http.DefaultTransport\<close>) and its timeout. \<open>http_Client_Do\<close> is \<open>(*http.Client).Do\<close>:
  an error, or a response.
\<close>

record http_Client =
  Transport :: "(Request \<Rightarrow> error + Response) option"
  Timeout :: Duration

definition http_Client_Do :: "'p stdlib \<Rightarrow> http_Client \<Rightarrow> Request \<Rightarrow> error + Response" where
  "http_Client_Do env hc req =
     (case Transport hc of None \<Rightarrow> DefaultTransport env req | Some rt \<Rightarrow> rt req)"

subsection \<open>The client\<close>

definition BaseUrl :: string where
  "BaseUrl = ''https://api.utho.com/v2/''"

definition defaultHTTPClient :: http_Client where
  "defaultHTTPClient = \<lparr>Transport = None, Timeout = Second * 300\<rparr>"

definition utho_version :: string where
  "utho_version = ''1.49.0''"

definition utho_defaultHTTPClient :: http_Client where
  "utho_defaultHTTPClient = \<lparr>Transport = None, Timeout = Second * 5\<rparr>"

text \<open>
  The struct \<open>client\<close>. Its remaining fields are the resource services, each a pointer to
  one \<open>service\<close> struct that holds the client itself; they are the accessors below.
\<close>

record client =
  client :: http_Client
  baseURL :: URL
  token :: string

record service =
  client :: client

type_synonym ApiKeyService = service

definition ApiKey :: "client \<Rightarrow> ApiKeyService" where
  "ApiKey c = \<lparr>service.client = c\<rparr>"

text \<open>
  An option (\<open>UthoOption\<close>, in the older copy \<open>ClerkOption\<close>) is a function on the client
  under construction that may change it and may fail.
\<close>

type_synonym UthoOption = "client \<Rightarrow> client \<times> error option"

definition toURLWithEndingSlash :: "'p stdlib \<Rightarrow> string \<Rightarrow> error + URL" where
  "toURLWithEndingSlash env u =
     (case url_Parse env u of
        Inl err \<Rightarrow> Inl err
      | Inr base \<Rightarrow>
          Inr (if \<not> HasSuffix (Path base) ''/''
               then base\<lparr>Path := Path base @ ''/''\<rparr>
               else base))"

text \<open>The loop of \<open>NewClient\<close> over the options: the first failing option ends it.\<close>

fun apply_options :: "client \<Rightarrow> UthoOption list \<Rightarrow> error + client" where
  "apply_options c [] = Inr c"
| "apply_options c (option # options) =
     (case option c of
        (c', Some err) \<Rightarrow> Inl err
      | (c', None) \<Rightarrow> apply_options c' options)"

definition NewClient :: "'p stdlib \<Rightarrow> string \<Rightarrow> UthoOption list \<Rightarrow> client option \<times> error option" where
  "NewClient env tok options =
     (if tok = '''' then (None, Some (errorString ''you must provide an API token''))
      else case toURLWithEndingSlash env BaseUrl of
        Inl err \<Rightarrow> (None, Some err)
      | Inr defaultBaseURL \<Rightarrow>
          (case apply_options
                  \<lparr>client.client = defaultHTTPClient, baseURL = defaultBaseURL, token = tok\<rparr>
                  options of
             Inl err \<Rightarrow> (None, Some err)
           | Inr c \<Rightarrow> (Some c, None)))"

definition utho_NewClient :: "'p stdlib \<Rightarrow> string \<Rightarrow> UthoOption list \<Rightarrow> client option \<times> error option" where
  "utho_NewClient env tok options =
     (if tok = '''' then (None, Some (errorString ''you must provide an API token''))
      else case toURLWithEndingSlash env BaseUrl of
        Inl err \<Rightarrow> (None, Some err)
      | Inr defaultBaseURL \<Rightarrow>
          (case apply_options
                  \<lparr>client.client = utho_defaultHTTPClient, baseURL = defaultBaseURL, token = tok\<rparr>
                  options of
             Inl err \<Rightarrow> (None, Some err)
           | Inr c \<Rightarrow> (Some c, None)))"

text \<open>
  The variadic parameter \<open>body ...interface{}\<close> is a list of interface values, \<open>None\<close>
  being the nil interface. \<open>encode_body\<close> is the block of \<open>NewRequest\<close> that fills the
  buffer: nothing without a first non-nil element, else the output of an encoder whose
  HTML escaping is switched off.
\<close>

definition encode_body :: "'p stdlib \<Rightarrow> 'p option list \<Rightarrow> error + string option" where
  "encode_body env body =
     (case body of
        Some payload # _ \<Rightarrow>
          (case json_Encode env False payload of
             Inl err \<Rightarrow> Inl err
           | Inr buf \<Rightarrow> Inr (Some buf))
      | _ \<Rightarrow> Inr None)"

definition NewRequest :: "'p stdlib \<Rightarrow> client \<Rightarrow> string \<Rightarrow> string \<Rightarrow> 'p option list \<Rightarrow> Request option \<times> error option" where
  "NewRequest env c method url body =
     (case URL_Parse env (baseURL c) url of
        Inl err \<Rightarrow> (None, Some err)
      | Inr fullUrl \<Rightarrow>
          (case encode_body env body of
             Inl err \<Rightarrow> (None, Some err)
           | Inr buf \<Rightarrow>
               (case http_NewRequest env method (URL_String env fullUrl) buf of
                  Inl err \<Rightarrow> (None, Some err)
                | Inr req \<Rightarrow>
                    (Some (req\<lparr>Request.Header :=
                              Header_Add
                                (Header_Add (Request.Header req) ''Content-Type'' ''application/json'')
                                ''Accept-Encoding'' ''application/json''\<rparr>),
                     None))))"

definition utho_NewRequest :: "'p stdlib \<Rightarrow> client \<Rightarrow> string \<Rightarrow> string \<Rightarrow> 'p option list \<Rightarrow> Request option \<times> error option" where
  "utho_NewRequest env c method url body =
     (case URL_Parse env (baseURL c) url of
        Inl err \<Rightarrow> (None, Some err)
      | Inr fullUrl \<Rightarrow>
          (case encode_body env body of
             Inl err \<Rightarrow> (None, Some err)
           | Inr buf \<Rightarrow>
               (case http_NewRequest env method (URL_String env fullUrl) buf of
                  Inl err \<Rightarrow> (None, Some err)
                | Inr req \<Rightarrow>
                    (Some (req\<lparr>Request.Header :=
                              Header_Set (Request.Header req) ''X-Clerk-SDK'' (''go/'' @ utho_version)\<rparr>),
                     None))))"

text \<open>
  \<open>checkForErrors\<close>. \<open>io.ReadAll\<close> on a nil body panics; on success it returns a non-nil
  slice, so the test \<open>data != nil\<close> is true whenever \<open>err == nil\<close>. The decoder is
  handed the whole \<open>ErrorResponse\<close>, and the error of \<open>json.Unmarshal\<close> is dropped.
\<close>

definition checkForErrors :: "'p stdlib \<Rightarrow> Response \<Rightarrow> error option go" where
  "checkForErrors env resp =
     (if StatusCode resp \<ge> 200 \<and> StatusCode resp < 400 then Return None
      else
        let errorResponse = \<lparr>Response = resp, Status = '''', Message = ''''\<rparr>
        in case Response.Body resp of
             None \<Rightarrow> Panic nil_dereference
           | Some b \<Rightarrow>
               (case io_ReadAll b of
                  Inr data \<Rightarrow>
                    Return (Some (ErrorResponse_error
                                    (fst (json_Unmarshal_ErrorResponse env data errorResponse))))
                | Inl err \<Rightarrow> Return (Some (ErrorResponse_error errorResponse))))"

text \<open>
  \<open>Do\<close> returns a response and an error, and writes through two pointers: the request
  (its header) and the target \<open>v\<close>. The result holds the two returned values and the
  objects behind the pointers as \<open>Do\<close> leaves them. \<open>v\<close> is an interface value, \<open>None\<close>
  being nil; \<open>unm\<close> is \<open>json.Unmarshal\<close> at the type of the target.

  A nil request panics at \<open>req.Header\<close>; a nil body panics at \<open>defer resp.Body.Close()\<close>.
  Past the \<open>defer\<close> the body is not nil, so of the test \<open>resp.Body != nil && v != nil\<close>
  the part \<open>v != nil\<close> decides. There is no test of the body's length.
\<close>

record 'v Do_result =
  ret_resp :: "Response option"
  ret_err :: "error option"
  req_after :: Request
  v_after :: "'v option"

definition Do :: "'p stdlib \<Rightarrow> 'v unmarshal \<Rightarrow> client \<Rightarrow> Request option \<Rightarrow> 'v option \<Rightarrow> 'v Do_result go" where
  "Do env unm c req v =
     (case req of
        None \<Rightarrow> Panic nil_dereference
      | Some r \<Rightarrow>
          (let r' = r\<lparr>Request.Header :=
                       Header_Set (Request.Header r) ''Authorization'' (''Bearer '' @ token c)\<rparr>
           in (case http_Client_Do env (client.client c) r' of
                 Inl err \<Rightarrow>
                   Return \<lparr>ret_resp = None, ret_err = Some err, req_after = r', v_after = v\<rparr>
               | Inr resp \<Rightarrow>
                   (case Response.Body resp of
                      None \<Rightarrow> Panic nil_dereference
                    | Some b \<Rightarrow>
                        (case checkForErrors env resp of
                           Panic msg \<Rightarrow> Panic msg
                         | Return (Some err) \<Rightarrow>
                             Return \<lparr>ret_resp = Some resp, ret_err = Some err,
                                     req_after = r', v_after = v\<rparr>
                         | Return None \<Rightarrow>
                             (case v of
                                None \<Rightarrow>
                                  Return \<lparr>ret_resp = Some resp, ret_err = None,
                                          req_after = r', v_after = v\<rparr>
                              | Some target \<Rightarrow>
                                  (case io_ReadAll b of
                                     Inl err \<Rightarrow>
                                       Return \<lparr>ret_resp = Some resp, ret_err = Some err,
                                               req_after = r', v_after = v\<rparr>
                                   | Inr data \<Rightarrow>
                                       (case unm data target of
                                          (target', Some err) \<Rightarrow>
                                            Return \<lparr>ret_resp = Some resp, ret_err = Some err,
                                                    req_after = r', v_after = Some target'\<rparr>
                                        | (target', None) \<Rightarrow>
                                            Return \<lparr>ret_resp = Some resp, ret_err = None,
                                                    req_after = r', v_after = Some target'\<rparr>))))))))"

subsection \<open>The API key service\<close>

record ApiKey =
  ID :: string
  Name :: string
  Write :: string
  CreatedAt :: string

text \<open>A slice is \<open>None\<close> when nil.\<close>

record ApiKeys =
  Status :: string
  Message :: string
  API :: "ApiKey list option"

record CreateApiKeyParams =
  Name :: string
  Write :: string

record CreateApiKeyResponse =
  Status :: string
  Apikey :: string
  Message :: string

text \<open>
  Modelled from the spec: the declaration of \<open>DeleteResponse\<close> is not among the source
  files. The code reads its fields \<open>Status\<close> and \<open>Message\<close>, and the tests build it as
  \<open>DeleteResponse{Status: "success", Message: "success"}\<close>.
\<close>

record DeleteResponse =
  Status :: string
  Message :: string

text \<open>
  \<open>after_Do\<close> is the value of a local variable whose address was handed to \<open>Do\<close>: what
  \<open>Do\<close> left behind the pointer.
\<close>

definition after_Do :: "'v \<Rightarrow> 'v Do_result \<Rightarrow> 'v" where
  "after_Do var r = (case v_after r of Some var' \<Rightarrow> var' | None \<Rightarrow> var)"

definition Create :: "CreateApiKeyParams stdlib \<Rightarrow> CreateApiKeyResponse unmarshal \<Rightarrow> ApiKeyService \<Rightarrow>
    CreateApiKeyParams \<Rightarrow> (CreateApiKeyResponse option \<times> error option) go" where
  "Create env unm s params =
     (let reqUrl = ''api/generate'';
          req = fst (utho_NewRequest env (service.client s) ''POST'' reqUrl [Some params]);
          zero = \<lparr>CreateApiKeyResponse.Status = '''', Apikey = '''', Message = ''''\<rparr>
      in case Do env unm (service.client s) req (Some zero) of
           Panic msg \<Rightarrow> Panic msg
         | Return r \<Rightarrow>
             (case ret_err r of
                Some err \<Rightarrow> Return (None, Some err)
              | None \<Rightarrow>
                  let apiKey = after_Do zero r
                  in if CreateApiKeyResponse.Status apiKey \<noteq> ''success''
                        \<and> CreateApiKeyResponse.Status apiKey \<noteq> ''''
                     then Return (None, Some (errorString (CreateApiKeyResponse.Message apiKey)))
                     else Return (Some apiKey, None)))"

definition List :: "'p stdlib \<Rightarrow> ApiKeys unmarshal \<Rightarrow> ApiKeyService \<Rightarrow>
    (ApiKey list option \<times> error option) go" where
  "List env unm s =
     (let reqUrl = ''api'';
          req = fst (utho_NewRequest env (service.client s) ''GET'' reqUrl []);
          zero = \<lparr>ApiKeys.Status = '''', Message = '''', API = None\<rparr>
      in case Do env unm (service.client s) req (Some zero) of
           Panic msg \<Rightarrow> Panic msg
         | Return r \<Rightarrow>
             (case ret_err r of
                Some err \<Rightarrow> Return (None, Some err)
              | None \<Rightarrow>
                  let apikeys = after_Do zero r
                  in if ApiKeys.Status apikeys \<noteq> ''success'' \<and> ApiKeys.Status apikeys \<noteq> ''''
                     then Return (None, Some (errorString (ApiKeys.Message apikeys)))
                     else Return (API apikeys, None)))"

definition Delete :: "'p stdlib \<Rightarrow> DeleteResponse unmarshal \<Rightarrow> ApiKeyService \<Rightarrow> string \<Rightarrow>
    (DeleteResponse option \<times> error option) go" where
  "Delete env unm s apiKeyId =
     (let reqUrl = ''api/'' @ apiKeyId @ ''/delete'';
          req = fst (utho_NewRequest env (service.client s) ''DELETE'' reqUrl []);
          zero = \<lparr>DeleteResponse.Status = '''', Message = ''''\<rparr>
      in case Do env unm (service.client s) req (Some zero) of
           Panic msg \<Rightarrow> Panic msg
         | Return r \<Rightarrow>
             (case ret_err r of
                Some err \<Rightarrow> Return (None, Some err)
              | None \<Rightarrow>
                  let delResponse = after_Do zero r
                  in if DeleteResponse.Status delResponse \<noteq> ''success''
                        \<and> DeleteResponse.Status delResponse \<noteq> ''''
                     then Return (None, Some (errorString (DeleteResponse.Message delResponse)))
                     else Return (Some delResponse, None)))"

subsection \<open>Stand-ins for the standard library and the server\<close>

text \<open>
  The tests of the repository run the client against a local test server. The
  definitions below play that part for the closed instances of the theorems: a toy URL
  parser that knows the host of \<open>BaseUrl\<close> and rejects every percent sign, resolution by
  appending the reference's path, a toy encoder, and decoders that know a few bodies and
  report a syntax error for every other input, the empty one included.
\<close>

definition fixture_URL :: "string \<Rightarrow> string \<Rightarrow> string \<Rightarrow> URL" where
  "fixture_URL scheme host path =
     \<lparr>Scheme = scheme, Opaque = '''', User = None, Host = host, Path = path, RawPath = '''',
      OmitHost = False, ForceQuery = False, RawQuery = '''', Fragment = '''',
      RawFragment = ''''\<rparr>"

definition fixture_url_Parse :: "string \<Rightarrow> error + URL" where
  "fixture_url_Parse s =
     (if CHR ''%'' \<in> set s then Inl (lib_error ''invalid URL escape'')
      else if take 20 s = ''https://api.utho.com''
      then Inr (fixture_URL ''https'' ''api.utho.com'' (drop 20 s))
      else Inr (fixture_URL '''' '''' s))"

definition fixture_syntax_error :: error where
  "fixture_syntax_error = lib_error ''unexpected end of JSON input''"

definition fixture_Unmarshal :: "(string \<times> 'v) list \<Rightarrow> 'v unmarshal" where
  "fixture_Unmarshal known data v =
     (case map_of known data of
        Some v' \<Rightarrow> (v', None)
      | None \<Rightarrow> (v, Some fixture_syntax_error))"

text \<open>
  A decoder for \<open>ErrorResponse\<close> that knows one body, writes the status and the message,
  and leaves the field \<open>Response\<close> alone.
\<close>

definition fixture_Unmarshal_ErrorResponse :: "ErrorResponse unmarshal" where
  \<open>fixture_Unmarshal_ErrorResponse data e =
     (if data = ''{"status":"failed","message":"not found"}''
      then (e\<lparr>ErrorResponse.Status := ''failed'', ErrorResponse.Message := ''not found''\<rparr>, None)
      else (e, Some fixture_syntax_error))\<close>

definition fixture_env :: "CreateApiKeyParams stdlib" where
  \<open>fixture_env =
     \<lparr>url_Parse = fixture_url_Parse,
      ResolveReference = (\<lambda>u ref. u\<lparr>Path := Path u @ Path ref\<rparr>),
      URL_String = (\<lambda>u. Scheme u @ ''://'' @ Host u @ Path u),
      json_Encode = (\<lambda>escapeHTML p.
        Inr (''{"name":"'' @ CreateApiKeyParams.Name p
             @ ''","write":"'' @ CreateApiKeyParams.Write p @ ''"}'')),
      http_method_url = (\<lambda>method url.
        case fixture_url_Parse url of
          Inl err \<Rightarrow> Inl err
        | Inr u \<Rightarrow> Inr (if method = '''' then ''GET'' else method, u)),
      json_Unmarshal_ErrorResponse = fixture_Unmarshal_ErrorResponse,
      DefaultTransport = (\<lambda>req. Inl (lib_error ''connection refused''))\<rparr>\<close>

text \<open>A client whose transport answers every request with the response \<open>resp\<close>.\<close>

definition fixture_client :: "Response \<Rightarrow> client" where
  "fixture_client resp =
     \<lparr>client.client = \<lparr>Transport = Some (\<lambda>req. Inr resp), Timeout = Second * 300\<rparr>,
      baseURL = fixture_URL ''https'' ''api.utho.com'' ''/v2/'',
      token = ''token''\<rparr>"

definition fixture_response :: "int \<Rightarrow> string \<Rightarrow> Response" where
  "fixture_response code data =
     \<lparr>StatusCode = code, Header = Map.empty, Body = Some (Body_bytes data)\<rparr>"

text \<open>Bodies a server sends, and decoders that know them.\<close>

definition fixture_failed_body :: string where
  \<open>fixture_failed_body = ''{"status":"failed","message":"quota exceeded"}''\<close>

definition fixture_plain_body :: string where
  \<open>fixture_plain_body = ''{"apikey":"secret","api":[]}''\<close>

definition fixture_Unmarshal_CreateApiKeyResponse :: "CreateApiKeyResponse unmarshal" where
  "fixture_Unmarshal_CreateApiKeyResponse =
     fixture_Unmarshal
       [(fixture_failed_body,
         \<lparr>CreateApiKeyResponse.Status = ''failed'', Apikey = '''', Message = ''quota exceeded''\<rparr>),
        (fixture_plain_body,
         \<lparr>CreateApiKeyResponse.Status = '''', Apikey = ''secret'', Message = ''''\<rparr>)]"

definition fixture_Unmarshal_ApiKeys :: "ApiKeys unmarshal" where
  "fixture_Unmarshal_ApiKeys =
     fixture_Unmarshal
       [(fixture_failed_body,
         \<lparr>ApiKeys.Status = ''failed'', Message = ''quota exceeded'', API = None\<rparr>),
        (fixture_plain_body,
         \<lparr>ApiKeys.Status = '''', Message = '''', API = Some []\<rparr>)]"

definition fixture_Unmarshal_DeleteResponse :: "DeleteResponse unmarshal" where
  "fixture_Unmarshal_DeleteResponse =
     fixture_Unmarshal
       [(fixture_failed_body,
         \<lparr>DeleteResponse.Status = ''failed'', Message = ''quota exceeded''\<rparr>),
        (fixture_plain_body,
         \<lparr>DeleteResponse.Status = '''', Message = ''''\<rparr>)]"

section \<open>Properties\<close>

subsection \<open>Helper facts\<close>

lemma canon_Authorization: "CanonicalMIMEHeaderKey ''Authorization'' = ''Authorization''"
  by code_simp

lemma canon_Content_Type: "CanonicalMIMEHeaderKey ''Content-Type'' = ''Content-Type''"
  by code_simp

lemma canon_Accept_Encoding: "CanonicalMIMEHeaderKey ''Accept-Encoding'' = ''Accept-Encoding''"
  by code_simp

lemma canon_X_Clerk_SDK: "CanonicalMIMEHeaderKey ''X-Clerk-SDK'' = ''X-Clerk-Sdk''"
  by code_simp

lemma HasSuffix_slash: "HasSuffix (p @ ''/'') ''/''"
  by (simp add: HasSuffix_def)

lemma checkForErrors_band:
  "200 \<le> StatusCode resp \<Longrightarrow> StatusCode resp < 400 \<Longrightarrow> checkForErrors env resp = Return None"
  by (simp add: checkForErrors_def)

lemma checkForErrors_outside:
  assumes "\<not> (200 \<le> StatusCode resp \<and> StatusCode resp < 400)"
    and "Response.Body resp = Some b"
  shows "\<exists>e. checkForErrors env resp = Return (Some (ErrorResponse_error e))
           \<and> (Response_kept (json_Unmarshal_ErrorResponse env) \<longrightarrow> ErrorResponse.Response e = resp)"
proof (cases "io_ReadAll b")
  case (Inl err)
  with assms show ?thesis
    by (auto simp: checkForErrors_def)
next
  case (Inr data)
  with assms show ?thesis
    by (auto simp: checkForErrors_def Response_kept_def)
qed

lemma fixture_Response_kept: "Response_kept (json_Unmarshal_ErrorResponse fixture_env)"
  by (simp add: Response_kept_def fixture_env_def fixture_Unmarshal_ErrorResponse_def)

subsection \<open>Responses outside the success band\<close>

text \<open>
  C1. Let the transport answer the request (with its authorisation header set) by a
  response whose status code is outside the band from 200 inclusive to 400 exclusive.
  Then \<open>Do\<close> returns with a non-nil error that is an \<open>ErrorResponse\<close>. This holds for
  every body (any bytes, empty or not, JSON or not, a body whose read fails) and every
  behaviour of the JSON decoders. The target of the caller is left as it was, and the
  result does not depend on the decoder of the target: the body is not decoded into the
  target. When decoding an \<open>ErrorResponse\<close> does not write its field \<open>Response\<close>
  (\<open>Response_kept\<close>, what the spec says of the error; the declaration that would decide
  it is not among the source files), \<open>Do\<close> returns the response as the transport gave
  it, and the error carries that response and so its status code, again for every body.
\<close>

theorem Do_error_outside_band:
  fixes unm :: "'v unmarshal"
  assumes sent: "http_Client_Do env (client.client c)
      (req\<lparr>Request.Header := Header_Set (Request.Header req) ''Authorization'' (''Bearer '' @ token c)\<rparr>)
      = Inr resp"
    and body: "Response.Body resp = Some b"
    and outside: "\<not> (200 \<le> StatusCode resp \<and> StatusCode resp < 400)"
  shows "\<exists>r e. Do env unm c (Some req) v = Return r
      \<and> ret_err r = Some (ErrorResponse_error e)
      \<and> v_after r = v
      \<and> (\<forall>unm'. Do env unm' c (Some req) v = Return r)
      \<and> (Response_kept (json_Unmarshal_ErrorResponse env) \<longrightarrow>
            ret_resp r = Some resp
            \<and> ErrorResponse.Response e = resp
            \<and> StatusCode (ErrorResponse.Response e) = StatusCode resp)"
proof -
  from checkForErrors_outside [OF outside body, of env]
  obtain e where e: "checkForErrors env resp = Return (Some (ErrorResponse_error e))"
    and resp: "Response_kept (json_Unmarshal_ErrorResponse env) \<longrightarrow> ErrorResponse.Response e = resp"
    by blast
  let ?r = "\<lparr>ret_resp = Some resp, ret_err = Some (ErrorResponse_error e),
      req_after = req\<lparr>Request.Header :=
        Header_Set (Request.Header req) ''Authorization'' (''Bearer '' @ token c)\<rparr>,
      v_after = v\<rparr>"
  have "Do env unm' c (Some req) v = Return ?r" for unm' :: "'v unmarshal"
    using sent body e by (simp add: Do_def)
  then show ?thesis
    using resp by (intro exI [of _ ?r] exI [of _ e]) simp
qed

theorem Do_error_outside_band_witness:
  "Response_kept (json_Unmarshal_ErrorResponse fixture_env)
   \<and> (\<exists>r e. Do fixture_env (fixture_Unmarshal [])
        (fixture_client (fixture_response 404 ''<html>not found</html>''))
        (Some \<lparr>Method = ''GET'', URL = fixture_URL ''https'' ''api.utho.com'' ''/v2/api'',
               Header = Map.empty, Body = None\<rparr>)
        (Some \<lparr>DeleteResponse.Status = '''', Message = ''''\<rparr>) = Return r
      \<and> ret_err r = Some (ErrorResponse_error e)
      \<and> v_after r = Some \<lparr>DeleteResponse.Status = '''', Message = ''''\<rparr>
      \<and> ret_resp r = Some (fixture_response 404 ''<html>not found</html>'')
      \<and> ErrorResponse.Response e = fixture_response 404 ''<html>not found</html>''
      \<and> StatusCode (ErrorResponse.Response e) = 404)"
proof -
  let ?resp = "fixture_response 404 ''<html>not found</html>''"
  let ?req = "\<lparr>Method = ''GET'', URL = fixture_URL ''https'' ''api.utho.com'' ''/v2/api'',
               Header = Map.empty, Body = None\<rparr>"
  have sent: "http_Client_Do fixture_env (client.client (fixture_client ?resp))
      (?req\<lparr>Request.Header := Header_Set (Request.Header ?req) ''Authorization''
          (''Bearer '' @ token (fixture_client ?resp))\<rparr>) = Inr ?resp"
    by (simp add: http_Client_Do_def fixture_client_def)
  have body: "Response.Body ?resp = Some (Body_bytes ''<html>not found</html>'')"
    by (simp add: fixture_response_def)
  have outside: "\<not> (200 \<le> StatusCode ?resp \<and> StatusCode ?resp < 400)"
    by (simp add: fixture_response_def)
  have code: "StatusCode ?resp = 404"
    by (simp add: fixture_response_def)
  from Do_error_outside_band [OF sent body outside, of "fixture_Unmarshal []"
      "Some \<lparr>DeleteResponse.Status = '''', Message = ''''\<rparr>"]
    fixture_Response_kept
  show ?thesis unfolding code by blast
qed

subsection \<open>Facts about construction\<close>

lemma fixture_parse_BaseUrl:
  "url_Parse fixture_env BaseUrl = Inr (fixture_URL ''https'' ''api.utho.com'' ''/v2/'')"
  by (simp add: fixture_env_def fixture_url_Parse_def BaseUrl_def)

lemma NewRequest_valid:
  assumes "url_Parse env path = Inr ref"
    and "encode_body env body = Inr buf"
    and "http_method_url env method (URL_String env (ResolveReference env (baseURL c) ref)) = Inr (m, full)"
  shows "NewRequest env c method path body =
      (Some \<lparr>Method = m, URL = full,
             Header = Header_Add (Header_Add Map.empty ''Content-Type'' ''application/json'')
                        ''Accept-Encoding'' ''application/json'',
             Body = buf\<rparr>, None)"
  using assms by (simp add: NewRequest_def URL_Parse_def http_NewRequest_def)

lemma utho_NewRequest_valid:
  assumes "url_Parse env path = Inr ref"
    and "encode_body env body = Inr buf"
    and "http_method_url env method (URL_String env (ResolveReference env (baseURL c) ref)) = Inr (m, full)"
  shows "utho_NewRequest env c method path body =
      (Some \<lparr>Method = m, URL = full,
             Header = Header_Set Map.empty ''X-Clerk-SDK'' (''go/'' @ utho_version),
             Body = buf\<rparr>, None)"
  using assms by (simp add: utho_NewRequest_def URL_Parse_def http_NewRequest_def)

lemma NewRequest_Some:
  assumes "NewRequest env c method path body = (Some req, None)"
  shows "\<exists>ref buf. url_Parse env path = Inr ref \<and> encode_body env body = Inr buf
    \<and> http_method_url env method (URL_String env (ResolveReference env (baseURL c) ref))
        = Inr (Method req, URL req)
    \<and> Request.Body req = buf
    \<and> Request.Header req = Header_Add (Header_Add Map.empty ''Content-Type'' ''application/json'')
                        ''Accept-Encoding'' ''application/json''"
  using assms
  by (auto simp: NewRequest_def URL_Parse_def http_NewRequest_def split: sum.splits prod.splits)

lemma utho_NewRequest_Some:
  assumes "utho_NewRequest env c method path body = (Some req, None)"
  shows "\<exists>ref buf. url_Parse env path = Inr ref \<and> encode_body env body = Inr buf
    \<and> http_method_url env method (URL_String env (ResolveReference env (baseURL c) ref))
        = Inr (Method req, URL req)
    \<and> Request.Body req = buf
    \<and> Request.Header req = Header_Set Map.empty ''X-Clerk-SDK'' (''go/'' @ utho_version)"
  using assms
  by (auto simp: utho_NewRequest_def URL_Parse_def http_NewRequest_def split: sum.splits prod.splits)

lemma fixture_parse_relative:
  "url_Parse fixture_env ''api/generate'' = Inr (fixture_URL '''' '''' ''api/generate'')"
  by (simp add: fixture_env_def fixture_url_Parse_def)

subsection \<open>Constructing a client\<close>

text \<open>
  C4. \<open>NewClient\<close> called with the empty token returns a nil client together with the
  error "you must provide an API token", whatever the options are; no client is built.
  Called with a non-empty token and no options it returns a client holding that token and
  a nil error, given that \<open>url.Parse\<close> accepts the constant \<open>BaseUrl\<close> (the only other
  way the code can fail, and a fact of \<open>net/url\<close>). Both copies of \<open>NewClient\<close> behave so.
\<close>

theorem NewClient_requires_token:
  "NewClient env '''' options = (None, Some (errorString ''you must provide an API token''))
   \<and> utho_NewClient env '''' options = (None, Some (errorString ''you must provide an API token''))
   \<and> (tok \<noteq> '''' \<and> url_Parse env BaseUrl = Inr u \<longrightarrow>
        (\<exists>c. NewClient env tok [] = (Some c, None) \<and> token c = tok)
        \<and> (\<exists>c. utho_NewClient env tok [] = (Some c, None) \<and> token c = tok))"
  by (simp add: NewClient_def utho_NewClient_def toURLWithEndingSlash_def)

theorem NewClient_requires_token_witness:
  "NewClient fixture_env '''' [] = (None, Some (errorString ''you must provide an API token''))
   \<and> utho_NewClient fixture_env '''' [] = (None, Some (errorString ''you must provide an API token''))
   \<and> ''token'' \<noteq> ''''
   \<and> url_Parse fixture_env BaseUrl = Inr (fixture_URL ''https'' ''api.utho.com'' ''/v2/'')
   \<and> (\<exists>c. NewClient fixture_env ''token'' [] = (Some c, None) \<and> token c = ''token'')
   \<and> (\<exists>c. utho_NewClient fixture_env ''token'' [] = (Some c, None) \<and> token c = ''token'')"
  using NewClient_requires_token [of fixture_env "[]" "''token''"
      "fixture_URL ''https'' ''api.utho.com'' ''/v2/''"]
    fixture_parse_BaseUrl
  by simp

subsection \<open>The default timeout\<close>

text \<open>
  C9, as the code has it. The claim asks for a default timeout of several minutes. The
  older copy in \<open>utho/\<close> has a default of five seconds: a client it builds without
  options carries \<open>utho_defaultHTTPClient\<close>, whose timeout is below one minute.
\<close>

theorem utho_default_timeout_counterexample:
  "fst (utho_NewClient fixture_env ''token'' [])
     = Some \<lparr>client.client = utho_defaultHTTPClient,
             baseURL = fixture_URL ''https'' ''api.utho.com'' ''/v2/'', token = ''token''\<rparr>
   \<and> Timeout utho_defaultHTTPClient = 5 * Second
   \<and> Timeout utho_defaultHTTPClient < Minute"
  using fixture_parse_BaseUrl
  by (simp add: utho_NewClient_def toURLWithEndingSlash_def utho_defaultHTTPClient_def
      Minute_def Second_def HasSuffix_def fixture_URL_def)

text \<open>
  C9, amended. The default HTTP client of the full client has a timeout of 300 seconds,
  that is five minutes: positive (zero would mean no timeout) and within the range of a
  64-bit duration. The default HTTP client of the older copy has a timeout of five
  seconds. A client constructed without options carries the default HTTP client of its
  copy.
\<close>

theorem default_timeout:
  "Timeout defaultHTTPClient = 5 * Minute
   \<and> 0 < Timeout defaultHTTPClient
   \<and> Timeout defaultHTTPClient < 2 ^ 63
   \<and> Timeout utho_defaultHTTPClient = 5 * Second
   \<and> (fst (NewClient env tok []) = Some c \<longrightarrow> client.client c = defaultHTTPClient)
   \<and> (fst (utho_NewClient env tok []) = Some c' \<longrightarrow> client.client c' = utho_defaultHTTPClient)"
  by (auto simp: defaultHTTPClient_def utho_defaultHTTPClient_def Minute_def Second_def
      NewClient_def utho_NewClient_def split: if_splits sum.splits)

theorem default_timeout_witness:
  "Timeout defaultHTTPClient = 5 * Minute
   \<and> 0 < Timeout defaultHTTPClient
   \<and> Timeout defaultHTTPClient < 2 ^ 63
   \<and> Timeout utho_defaultHTTPClient = 5 * Second
   \<and> fst (NewClient fixture_env ''token'' [])
       = Some \<lparr>client.client = defaultHTTPClient,
               baseURL = fixture_URL ''https'' ''api.utho.com'' ''/v2/'', token = ''token''\<rparr>
   \<and> client.client \<lparr>client.client = defaultHTTPClient,
               baseURL = fixture_URL ''https'' ''api.utho.com'' ''/v2/'', token = ''token''\<rparr>
       = defaultHTTPClient
   \<and> fst (utho_NewClient fixture_env ''token'' [])
       = Some \<lparr>client.client = utho_defaultHTTPClient,
               baseURL = fixture_URL ''https'' ''api.utho.com'' ''/v2/'', token = ''token''\<rparr>
   \<and> client.client \<lparr>client.client = utho_defaultHTTPClient,
               baseURL = fixture_URL ''https'' ''api.utho.com'' ''/v2/'', token = ''token''\<rparr>
       = utho_defaultHTTPClient"
proof -
  have n: "fst (NewClient fixture_env ''token'' [])
       = Some \<lparr>client.client = defaultHTTPClient,
               baseURL = fixture_URL ''https'' ''api.utho.com'' ''/v2/'', token = ''token''\<rparr>"
    using fixture_parse_BaseUrl
    by (simp add: NewClient_def toURLWithEndingSlash_def HasSuffix_def fixture_URL_def)
  have u: "fst (utho_NewClient fixture_env ''token'' [])
       = Some \<lparr>client.client = utho_defaultHTTPClient,
               baseURL = fixture_URL ''https'' ''api.utho.com'' ''/v2/'', token = ''token''\<rparr>"
    using fixture_parse_BaseUrl
    by (simp add: utho_NewClient_def toURLWithEndingSlash_def HasSuffix_def fixture_URL_def)
  from default_timeout [of fixture_env "''token''"
      "\<lparr>client.client = defaultHTTPClient,
               baseURL = fixture_URL ''https'' ''api.utho.com'' ''/v2/'', token = ''token''\<rparr>"
      "\<lparr>client.client = utho_defaultHTTPClient,
               baseURL = fixture_URL ''https'' ''api.utho.com'' ''/v2/'', token = ''token''\<rparr>"] n u
  show ?thesis by simp
qed
subsection \<open>The base URL and the URL of a request\<close>

text \<open>
  C6. \<open>toURLWithEndingSlash\<close> parses the string with \<open>url.Parse\<close>. It returns an error
  exactly when the parse fails, and then the parser's error. Otherwise it returns the
  parsed URL, with \<open>/\<close> appended to its path if and only if the path did not end in
  \<open>/\<close>; the path of the result always ends in \<open>/\<close>. The base URL of a client
  constructed without options is \<open>BaseUrl\<close> normalised this way. For \<open>NewRequest\<close> (both
  copies): when the relative path parses, the payload encodes and \<open>http.NewRequest\<close>
  accepts the method and the URL text, the request is built and its URL is the one
  \<open>http.NewRequest\<close> reads from the text of \<open>ResolveReference\<close> applied to the base URL
  and the parsed path, which is the standard resolution of a relative reference; and
  every request that \<open>NewRequest\<close> returns has a URL of this form.
\<close>

theorem URL_resolution:
  "(\<forall>err. url_Parse env u = Inl err \<longrightarrow> toURLWithEndingSlash env u = Inl err)
   \<and> (\<forall>p. url_Parse env u = Inr p \<longrightarrow>
         toURLWithEndingSlash env u
           = Inr (p\<lparr>Path := (if HasSuffix (Path p) ''/'' then Path p else Path p @ ''/'')\<rparr>))
   \<and> (\<forall>b. toURLWithEndingSlash env u = Inr b \<longrightarrow> HasSuffix (Path b) ''/'')
   \<and> (\<forall>c. NewClient env tok [] = (Some c, None) \<longrightarrow>
         toURLWithEndingSlash env BaseUrl = Inr (baseURL c))
   \<and> (\<forall>ref buf m full.
         url_Parse env path = Inr ref
         \<and> encode_body env body = Inr buf
         \<and> http_method_url env method (URL_String env (ResolveReference env (baseURL c) ref))
             = Inr (m, full)
         \<longrightarrow> (\<exists>req. NewRequest env c method path body = (Some req, None)
                \<and> Method req = m \<and> URL req = full)
           \<and> (\<exists>req. utho_NewRequest env c method path body = (Some req, None)
                \<and> Method req = m \<and> URL req = full))
   \<and> (\<forall>req. NewRequest env c method path body = (Some req, None)
            \<or> utho_NewRequest env c method path body = (Some req, None) \<longrightarrow>
         (\<exists>ref. url_Parse env path = Inr ref
           \<and> http_method_url env method (URL_String env (ResolveReference env (baseURL c) ref))
               = Inr (Method req, URL req)))"
proof (intro conjI allI impI)
  fix err assume "url_Parse env u = Inl err"
  then show "toURLWithEndingSlash env u = Inl err"
    by (simp add: toURLWithEndingSlash_def)
next
  fix p assume "url_Parse env u = Inr p"
  then show "toURLWithEndingSlash env u
      = Inr (p\<lparr>Path := (if HasSuffix (Path p) ''/'' then Path p else Path p @ ''/'')\<rparr>)"
    by (simp add: toURLWithEndingSlash_def)
next
  fix b assume "toURLWithEndingSlash env u = Inr b"
  then show "HasSuffix (Path b) ''/''"
    by (auto simp: toURLWithEndingSlash_def HasSuffix_slash split: sum.splits if_splits)
next
  fix c assume "NewClient env tok [] = (Some c, None)"
  then show "toURLWithEndingSlash env BaseUrl = Inr (baseURL c)"
    by (auto simp: NewClient_def split: if_splits sum.splits)
next
  fix ref buf m full
  assume h: "url_Parse env path = Inr ref
         \<and> encode_body env body = Inr buf
         \<and> http_method_url env method (URL_String env (ResolveReference env (baseURL c) ref))
             = Inr (m, full)"
  then show "\<exists>req. NewRequest env c method path body = (Some req, None)
                \<and> Method req = m \<and> URL req = full"
    by (simp add: NewRequest_valid)
  from h show "\<exists>req. utho_NewRequest env c method path body = (Some req, None)
                \<and> Method req = m \<and> URL req = full"
    by (simp add: utho_NewRequest_valid)
next
  fix req
  assume "NewRequest env c method path body = (Some req, None)
            \<or> utho_NewRequest env c method path body = (Some req, None)"
  then show "\<exists>ref. url_Parse env path = Inr ref
           \<and> http_method_url env method (URL_String env (ResolveReference env (baseURL c) ref))
               = Inr (Method req, URL req)"
    using NewRequest_Some utho_NewRequest_Some by blast
qed

theorem URL_resolution_witness:
  "toURLWithEndingSlash fixture_env ''100%'' = Inl (lib_error ''invalid URL escape'')
   \<and> toURLWithEndingSlash fixture_env ''https://api.utho.com/v2''
       = Inr (fixture_URL ''https'' ''api.utho.com'' ''/v2/'')
   \<and> HasSuffix (Path (fixture_URL ''https'' ''api.utho.com'' ''/v2/'')) ''/''
   \<and> NewClient fixture_env ''token'' []
       = (Some \<lparr>client.client = defaultHTTPClient,
                 baseURL = fixture_URL ''https'' ''api.utho.com'' ''/v2/'', token = ''token''\<rparr>, None)
   \<and> toURLWithEndingSlash fixture_env BaseUrl = Inr (fixture_URL ''https'' ''api.utho.com'' ''/v2/'')
   \<and> (\<exists>req. NewRequest fixture_env (fixture_client (fixture_response 200 ''''))
          ''POST'' ''api/generate'' [Some \<lparr>CreateApiKeyParams.Name = ''k'', Write = ''1''\<rparr>]
          = (Some req, None)
        \<and> Method req = ''POST''
        \<and> URL req = fixture_URL ''https'' ''api.utho.com'' ''/v2/api/generate'')
   \<and> (\<exists>req. utho_NewRequest fixture_env (fixture_client (fixture_response 200 ''''))
          ''POST'' ''api/generate'' [Some \<lparr>CreateApiKeyParams.Name = ''k'', Write = ''1''\<rparr>]
          = (Some req, None)
        \<and> Method req = ''POST''
        \<and> URL req = fixture_URL ''https'' ''api.utho.com'' ''/v2/api/generate'')"
proof -
  let ?c = "fixture_client (fixture_response 200 '''')"
  let ?body = "[Some \<lparr>CreateApiKeyParams.Name = ''k'', Write = ''1''\<rparr>]"
  let ?nc = "\<lparr>client.client = defaultHTTPClient,
      baseURL = fixture_URL ''https'' ''api.utho.com'' ''/v2/'', token = ''token''\<rparr>"
  have bad: "url_Parse fixture_env ''100%'' = Inl (lib_error ''invalid URL escape'')"
    by (simp add: fixture_env_def fixture_url_Parse_def)
  have good: "url_Parse fixture_env ''https://api.utho.com/v2''
      = Inr (fixture_URL ''https'' ''api.utho.com'' ''/v2'')"
    by (simp add: fixture_env_def fixture_url_Parse_def)
  have slash: "\<not> HasSuffix (Path (fixture_URL ''https'' ''api.utho.com'' ''/v2'')) ''/''"
    by (simp add: HasSuffix_def fixture_URL_def)
  have nc: "NewClient fixture_env ''token'' [] = (Some ?nc, None)"
    using fixture_parse_BaseUrl
    by (simp add: NewClient_def toURLWithEndingSlash_def HasSuffix_def fixture_URL_def)
  have enc: "encode_body fixture_env ?body = Inr (Some ''{\"name\":\"k\",\"write\":\"1\"}'')"
    by (simp add: encode_body_def fixture_env_def)
  have full: "http_method_url fixture_env ''POST''
      (URL_String fixture_env (ResolveReference fixture_env (baseURL ?c)
         (fixture_URL '''' '''' ''api/generate'')))
      = Inr (''POST'', fixture_URL ''https'' ''api.utho.com'' ''/v2/api/generate'')"
    by (simp add: fixture_env_def fixture_client_def fixture_URL_def fixture_url_Parse_def)
  note bad_case = URL_resolution [of fixture_env "''100%''" "''token''" "''api/generate''" ?body
      "''POST''" ?c]
  note good_case = URL_resolution [of fixture_env "''https://api.utho.com/v2''" "''token''"
      "''api/generate''" ?body "''POST''" ?c]
  have 1: "toURLWithEndingSlash fixture_env ''100%'' = Inl (lib_error ''invalid URL escape'')"
    using bad_case bad by blast
  have 2: "toURLWithEndingSlash fixture_env ''https://api.utho.com/v2''
       = Inr (fixture_URL ''https'' ''api.utho.com'' ''/v2/'')"
    using good_case good slash by (simp add: fixture_URL_def)
  have 3: "HasSuffix (Path (fixture_URL ''https'' ''api.utho.com'' ''/v2/'')) ''/''"
    using good_case 2 by blast
  have 4: "toURLWithEndingSlash fixture_env BaseUrl
       = Inr (fixture_URL ''https'' ''api.utho.com'' ''/v2/'')"
    using good_case nc by (simp add: fixture_URL_def)
  have 5: "(\<exists>req. NewRequest fixture_env ?c ''POST'' ''api/generate'' ?body = (Some req, None)
        \<and> Method req = ''POST''
        \<and> URL req = fixture_URL ''https'' ''api.utho.com'' ''/v2/api/generate'')
     \<and> (\<exists>req. utho_NewRequest fixture_env ?c ''POST'' ''api/generate'' ?body = (Some req, None)
        \<and> Method req = ''POST''
        \<and> URL req = fixture_URL ''https'' ''api.utho.com'' ''/v2/api/generate'')"
    using good_case fixture_parse_relative enc full by blast
  from 1 2 3 nc 4 5 show ?thesis by blast
qed

subsection \<open>Facts about headers and about Do\<close>

lemma Header_Values_Add_same:
  "Header_Values (Header_Add h k v) k = Header_Values h k @ [v]"
  by (simp add: Header_Values_def Header_Add_def Let_def split: option.splits)

lemma Header_Values_Add_other:
  "CanonicalMIMEHeaderKey k' \<noteq> CanonicalMIMEHeaderKey k \<Longrightarrow>
   Header_Values (Header_Add h k v) k' = Header_Values h k'"
  by (simp add: Header_Values_def Header_Add_def Let_def)

lemma Header_Values_Set_same:
  "Header_Values (Header_Set h k v) k = [v]"
  by (simp add: Header_Values_def Header_Set_def)

lemma Header_Values_Set_other:
  "CanonicalMIMEHeaderKey k' \<noteq> CanonicalMIMEHeaderKey k \<Longrightarrow>
   Header_Values (Header_Set h k v) k' = Header_Values h k'"
  by (simp add: Header_Values_def Header_Set_def)

lemma Header_Values_empty: "Header_Values Map.empty k = []"
  by (simp add: Header_Values_def)

lemmas canon_keys = canon_Authorization canon_Content_Type canon_Accept_Encoding canon_X_Clerk_SDK

lemma Do_Return:
  assumes "Do env unm c (Some r) v = Return res"
  shows "req_after res
      = r\<lparr>Request.Header := Header_Set (Request.Header r) ''Authorization'' (''Bearer '' @ token c)\<rparr>
    \<and> (case http_Client_Do env (client.client c) (req_after res) of
          Inl err \<Rightarrow> ret_resp res = None \<and> ret_err res = Some err
        | Inr resp \<Rightarrow> ret_resp res = Some resp)"
  using assms
  by (auto simp: Do_def Let_def split: sum.splits option.splits go.splits prod.splits)

lemma Do_in_band:
  assumes "http_Client_Do env (client.client c)
      (req\<lparr>Request.Header := Header_Set (Request.Header req) ''Authorization'' (''Bearer '' @ token c)\<rparr>)
      = Inr resp"
    and "Response.Body resp = Some (Body_bytes data)"
    and "200 \<le> StatusCode resp" and "StatusCode resp < 400"
  shows "Do env unm c (Some req) (Some t) =
      Return \<lparr>ret_resp = Some resp, ret_err = snd (unm data t),
        req_after = req\<lparr>Request.Header :=
          Header_Set (Request.Header req) ''Authorization'' (''Bearer '' @ token c)\<rparr>,
        v_after = Some (fst (unm data t))\<rparr>"
  using assms
  by (cases "unm data t")
    (auto simp: Do_def Let_def checkForErrors_band io_ReadAll_def split: option.splits)

lemma fixture_client_Do:
  "http_Client_Do env (client.client (fixture_client resp)) req = Inr resp"
  by (simp add: http_Client_Do_def fixture_client_def)

lemma fixture_response_simps:
  "StatusCode (fixture_response code data) = code"
  "Response.Body (fixture_response code data) = Some (Body_bytes data)"
  by (simp_all add: fixture_response_def)

lemma fixture_Do_in_band:
  assumes "200 \<le> code" and "code < 400"
  shows "Do env unm (fixture_client (fixture_response code data)) (Some req) (Some t) =
      Return \<lparr>ret_resp = Some (fixture_response code data), ret_err = snd (unm data t),
        req_after = req\<lparr>Request.Header :=
          Header_Set (Request.Header req) ''Authorization''
            (''Bearer '' @ token (fixture_client (fixture_response code data)))\<rparr>,
        v_after = Some (fst (unm data t))\<rparr>"
  using assms
  by (intro Do_in_band [OF fixture_client_Do]) (simp_all add: fixture_response_simps)

lemma fixture_NewRequest:
  "NewRequest fixture_env (fixture_client resp) ''POST'' ''api/generate''
      [Some \<lparr>CreateApiKeyParams.Name = ''k'', Write = ''1''\<rparr>]
    = (Some \<lparr>Method = ''POST'', URL = fixture_URL ''https'' ''api.utho.com'' ''/v2/api/generate'',
        Header = Header_Add (Header_Add Map.empty ''Content-Type'' ''application/json'')
                        ''Accept-Encoding'' ''application/json'',
        Body = Some ''{\"name\":\"k\",\"write\":\"1\"}''\<rparr>, None)"
proof (rule NewRequest_valid)
  show "url_Parse fixture_env ''api/generate'' = Inr (fixture_URL '''' '''' ''api/generate'')"
    by (rule fixture_parse_relative)
  show "encode_body fixture_env [Some \<lparr>CreateApiKeyParams.Name = ''k'', Write = ''1''\<rparr>]
      = Inr (Some ''{\"name\":\"k\",\"write\":\"1\"}'')"
    by (simp add: encode_body_def fixture_env_def)
  show "http_method_url fixture_env ''POST''
      (URL_String fixture_env (ResolveReference fixture_env (baseURL (fixture_client resp))
         (fixture_URL '''' '''' ''api/generate'')))
      = Inr (''POST'', fixture_URL ''https'' ''api.utho.com'' ''/v2/api/generate'')"
    by (simp add: fixture_env_def fixture_client_def fixture_URL_def fixture_url_Parse_def)
qed

lemma fixture_utho_NewRequest:
  assumes "url_Parse fixture_env path = Inr (fixture_URL '''' '''' path)"
    and "encode_body fixture_env body = Inr buf"
    and "CHR ''%'' \<notin> set path"
  shows "utho_NewRequest fixture_env (fixture_client resp) method path body
    = (Some \<lparr>Method = (if method = '''' then ''GET'' else method),
        URL = fixture_URL ''https'' ''api.utho.com'' (''/v2/'' @ path),
        Header = Header_Set Map.empty ''X-Clerk-SDK'' (''go/'' @ utho_version),
        Body = buf\<rparr>, None)"
proof (rule utho_NewRequest_valid [OF assms(1,2)])
  show "http_method_url fixture_env method
      (URL_String fixture_env (ResolveReference fixture_env (baseURL (fixture_client resp))
         (fixture_URL '''' '''' path)))
      = Inr (if method = '''' then ''GET'' else method,
             fixture_URL ''https'' ''api.utho.com'' (''/v2/'' @ path))"
    using assms(3) by (simp add: fixture_env_def fixture_client_def fixture_URL_def fixture_url_Parse_def)
qed

subsection \<open>The headers of a request\<close>

text \<open>
  C5, as the code has it. A request built by the \<open>NewRequest\<close> of the older copy in
  \<open>utho/\<close> has the single header \<open>X-Clerk-Sdk\<close>; it has neither \<open>Content-Type\<close> nor
  \<open>Accept-Encoding\<close>.
\<close>

theorem utho_request_headers_counterexample:
  "utho_NewRequest fixture_env (fixture_client (fixture_response 200 '''')) ''GET'' ''api'' []
     = (Some \<lparr>Method = ''GET'', URL = fixture_URL ''https'' ''api.utho.com'' ''/v2/api'',
               Header = [''X-Clerk-Sdk'' \<mapsto> [''go/1.49.0'']], Body = None\<rparr>, None)
   \<and> Header_Values [''X-Clerk-Sdk'' \<mapsto> [''go/1.49.0'']] ''Content-Type'' = []
   \<and> Header_Values [''X-Clerk-Sdk'' \<mapsto> [''go/1.49.0'']] ''Accept-Encoding'' = []"
proof -
  have "url_Parse fixture_env ''api'' = Inr (fixture_URL '''' '''' ''api'')"
    by (simp add: fixture_env_def fixture_url_Parse_def)
  moreover have "encode_body fixture_env [] = Inr None"
    by (simp add: encode_body_def)
  moreover have "http_method_url fixture_env ''GET''
      (URL_String fixture_env (ResolveReference fixture_env
         (baseURL (fixture_client (fixture_response 200 ''''))) (fixture_URL '''' '''' ''api'')))
      = Inr (''GET'', fixture_URL ''https'' ''api.utho.com'' ''/v2/api'')"
    by (simp add: fixture_env_def fixture_client_def fixture_URL_def fixture_url_Parse_def)
  ultimately have "utho_NewRequest fixture_env (fixture_client (fixture_response 200 '''')) ''GET'' ''api'' []
     = (Some \<lparr>Method = ''GET'', URL = fixture_URL ''https'' ''api.utho.com'' ''/v2/api'',
               Header = Header_Set Map.empty ''X-Clerk-SDK'' (''go/'' @ utho_version),
               Body = None\<rparr>, None)"
    by (rule utho_NewRequest_valid)
  then show ?thesis
    by (simp add: Header_Set_def canon_keys utho_version_def Header_Values_def)
qed

text \<open>
  C5, amended. A request built by the \<open>NewRequest\<close> of the full client has the headers
  \<open>Content-Type: application/json\<close> and \<open>Accept-Encoding: application/json\<close>, each with
  that one value. A request built by the \<open>NewRequest\<close> of the older copy, whatever the
  method, the path and the payload, has neither of the two: it has the header
  \<open>X-Clerk-SDK: go/1.49.0\<close>. A request built by either copy of \<open>NewRequest\<close> has no
  \<open>Authorization\<close> header. When \<open>Do\<close> returns, the request is the one it was given with
  the header \<open>Authorization\<close> set to \<open>Bearer\<close>, a space and the token of the client, and
  what \<open>Do\<close> returns as response (or as transport error) is the answer of the HTTP
  client to that request: the header is set before the request is sent.
\<close>

theorem request_headers:
  "(NewRequest env c method path body = (Some req, None) \<longrightarrow>
      Header_Values (Request.Header req) ''Content-Type'' = [''application/json'']
      \<and> Header_Values (Request.Header req) ''Accept-Encoding'' = [''application/json'']
      \<and> Header_Values (Request.Header req) ''Authorization'' = [])
   \<and> (utho_NewRequest env c method path body = (Some req', None) \<longrightarrow>
      Header_Values (Request.Header req') ''Authorization'' = []
      \<and> Header_Values (Request.Header req') ''Content-Type'' = []
      \<and> Header_Values (Request.Header req') ''Accept-Encoding'' = []
      \<and> Header_Values (Request.Header req') ''X-Clerk-SDK'' = [''go/1.49.0''])
   \<and> (Do env unm c (Some r) v = Return res \<longrightarrow>
      Header_Values (Request.Header (req_after res)) ''Authorization'' = [''Bearer '' @ token c]
      \<and> req_after res
          = r\<lparr>Request.Header :=
               Header_Set (Request.Header r) ''Authorization'' (''Bearer '' @ token c)\<rparr>
      \<and> (case http_Client_Do env (client.client c) (req_after res) of
            Inl err \<Rightarrow> ret_resp res = None \<and> ret_err res = Some err
          | Inr resp \<Rightarrow> ret_resp res = Some resp))"
proof (intro conjI impI)
  assume "NewRequest env c method path body = (Some req, None)"
  then have h: "Request.Header req
      = Header_Add (Header_Add Map.empty ''Content-Type'' ''application/json'')
          ''Accept-Encoding'' ''application/json''"
    using NewRequest_Some by blast
  show "Header_Values (Request.Header req) ''Content-Type'' = [''application/json'']"
    unfolding h
    by (simp add: Header_Values_Add_other Header_Values_Add_same Header_Values_empty canon_keys)
  show "Header_Values (Request.Header req) ''Accept-Encoding'' = [''application/json'']"
    unfolding h by (simp add: Header_Values_Add_same Header_Values_Add_other Header_Values_empty canon_keys)
  show "Header_Values (Request.Header req) ''Authorization'' = []"
    unfolding h by (simp add: Header_Values_Add_other Header_Values_empty canon_keys)
next
  assume "utho_NewRequest env c method path body = (Some req', None)"
  then have h: "Request.Header req' = Header_Set Map.empty ''X-Clerk-SDK'' (''go/'' @ utho_version)"
    using utho_NewRequest_Some by blast
  show "Header_Values (Request.Header req') ''Authorization'' = []"
    unfolding h by (simp add: Header_Values_Set_other Header_Values_empty canon_keys)
  show "Header_Values (Request.Header req') ''Content-Type'' = []"
    unfolding h by (simp add: Header_Values_Set_other Header_Values_empty canon_keys)
  show "Header_Values (Request.Header req') ''Accept-Encoding'' = []"
    unfolding h by (simp add: Header_Values_Set_other Header_Values_empty canon_keys)
  show "Header_Values (Request.Header req') ''X-Clerk-SDK'' = [''go/1.49.0'']"
    unfolding h by (simp add: Header_Values_Set_same utho_version_def)
next
  assume d: "Do env unm c (Some r) v = Return res"
  from Do_Return [OF d]
  show after: "req_after res
          = r\<lparr>Request.Header :=
               Header_Set (Request.Header r) ''Authorization'' (''Bearer '' @ token c)\<rparr>"
    and "(case http_Client_Do env (client.client c) (req_after res) of
            Inl err \<Rightarrow> ret_resp res = None \<and> ret_err res = Some err
          | Inr resp \<Rightarrow> ret_resp res = Some resp)"
    by blast+
  show "Header_Values (Request.Header (req_after res)) ''Authorization'' = [''Bearer '' @ token c]"
    unfolding after by (simp add: Header_Values_Set_same)
qed

theorem request_headers_witness:
  "\<exists>req req' res.
     NewRequest fixture_env (fixture_client (fixture_response 200 '''')) ''POST'' ''api/generate''
        [Some \<lparr>CreateApiKeyParams.Name = ''k'', Write = ''1''\<rparr>] = (Some req, None)
     \<and> Header_Values (Request.Header req) ''Content-Type'' = [''application/json'']
     \<and> Header_Values (Request.Header req) ''Accept-Encoding'' = [''application/json'']
     \<and> Header_Values (Request.Header req) ''Authorization'' = []
     \<and> utho_NewRequest fixture_env (fixture_client (fixture_response 200 '''')) ''POST''
          ''api/generate'' [Some \<lparr>CreateApiKeyParams.Name = ''k'', Write = ''1''\<rparr>]
          = (Some req', None)
     \<and> Header_Values (Request.Header req') ''Authorization'' = []
     \<and> Header_Values (Request.Header req') ''Content-Type'' = []
     \<and> Header_Values (Request.Header req') ''Accept-Encoding'' = []
     \<and> Header_Values (Request.Header req') ''X-Clerk-SDK'' = [''go/1.49.0'']
     \<and> Do fixture_env (fixture_Unmarshal []) (fixture_client (fixture_response 200 ''''))
          (Some req) (Some \<lparr>DeleteResponse.Status = '''', Message = ''''\<rparr>) = Return res
     \<and> Header_Values (Request.Header (req_after res)) ''Authorization'' = [''Bearer token'']"
proof -
  let ?c = "fixture_client (fixture_response 200 '''')"
  let ?body = "[Some \<lparr>CreateApiKeyParams.Name = ''k'', Write = ''1''\<rparr>]"
  obtain req where req: "NewRequest fixture_env ?c ''POST'' ''api/generate'' ?body = (Some req, None)"
    using fixture_NewRequest by blast
  have "url_Parse fixture_env ''api/generate'' = Inr (fixture_URL '''' '''' ''api/generate'')"
    by (rule fixture_parse_relative)
  moreover have "\<exists>buf. encode_body fixture_env ?body = Inr buf"
    by (simp add: encode_body_def fixture_env_def)
  ultimately obtain req' where
    req': "utho_NewRequest fixture_env ?c ''POST'' ''api/generate'' ?body = (Some req', None)"
    using fixture_utho_NewRequest [of "''api/generate''"] by auto
  have "\<exists>res. Do fixture_env (fixture_Unmarshal []) ?c (Some req)
      (Some \<lparr>DeleteResponse.Status = [], Message = []\<rparr>) = Return res"
    by (simp add: fixture_Do_in_band)
  then obtain res where res: "Do fixture_env (fixture_Unmarshal []) ?c (Some req)
      (Some \<lparr>DeleteResponse.Status = [], Message = []\<rparr>) = Return res"
    by blast
  have tok: "token ?c = ''token''"
    by (simp add: fixture_client_def)
  from request_headers [of fixture_env ?c "''POST''" "''api/generate''" ?body req req'
      "fixture_Unmarshal []" req "Some \<lparr>DeleteResponse.Status = '''', Message = ''''\<rparr>" res]
    req req' res tok
  show ?thesis by auto
qed

subsection \<open>An empty body in the success band\<close>

text \<open>
  C8, as the code has it. \<open>Do\<close> guards the decoding by \<open>resp.Body != nil\<close>, which holds
  for every response of an HTTP client, and not by the body being non-empty. For a
  response in the success band with an empty body and a target, \<open>Do\<close> hands the empty
  byte string to \<open>json.Unmarshal\<close> and returns the decoder's error, if it reports one.
  The decoder of \<open>encoding/json\<close> reports "unexpected end of JSON input" for the empty
  input, as the stand-in decoder of the closed instance does: there \<open>Do\<close> returns that
  error for a response with status 204.
\<close>

theorem Do_decodes_empty_body:
  assumes "http_Client_Do env (client.client c)
      (req\<lparr>Request.Header := Header_Set (Request.Header req) ''Authorization'' (''Bearer '' @ token c)\<rparr>)
      = Inr resp"
    and "Response.Body resp = Some (Body_bytes '''')"
    and "200 \<le> StatusCode resp" and "StatusCode resp < 400"
  shows "Do env unm c (Some req) (Some t) =
      Return \<lparr>ret_resp = Some resp, ret_err = snd (unm '''' t),
        req_after = req\<lparr>Request.Header :=
          Header_Set (Request.Header req) ''Authorization'' (''Bearer '' @ token c)\<rparr>,
        v_after = Some (fst (unm '''' t))\<rparr>"
  using assms by (rule Do_in_band)

theorem Do_decodes_empty_body_witness:
  "Do fixture_env (fixture_Unmarshal []) (fixture_client (fixture_response 204 ''''))
     (Some \<lparr>Method = ''DELETE'', URL = fixture_URL ''https'' ''api.utho.com'' ''/v2/api/1/delete'',
            Header = Map.empty, Body = None\<rparr>)
     (Some \<lparr>DeleteResponse.Status = '''', Message = ''''\<rparr>)
   = Return \<lparr>ret_resp = Some (fixture_response 204 ''''),
       ret_err = Some (lib_error ''unexpected end of JSON input''),
       req_after = \<lparr>Method = ''DELETE'',
         URL = fixture_URL ''https'' ''api.utho.com'' ''/v2/api/1/delete'',
         Header = [''Authorization'' \<mapsto> [''Bearer token'']], Body = None\<rparr>,
       v_after = Some \<lparr>DeleteResponse.Status = '''', Message = ''''\<rparr>\<rparr>"
proof -
  let ?c = "fixture_client (fixture_response 204 [])"
  let ?req = "\<lparr>Method = ''DELETE'',
      URL = fixture_URL ''https'' ''api.utho.com'' ''/v2/api/1/delete'',
      Header = Map.empty, Body = None\<rparr>"
  have sent: "http_Client_Do fixture_env (client.client ?c)
      (?req\<lparr>Request.Header :=
         Header_Set (Request.Header ?req) ''Authorization'' (''Bearer '' @ token ?c)\<rparr>)
      = Inr (fixture_response 204 [])"
    by (rule fixture_client_Do)
  have body: "Response.Body (fixture_response 204 []) = Some (Body_bytes [])"
    by (simp add: fixture_response_simps)
  have band: "200 \<le> StatusCode (fixture_response 204 [])"
    "StatusCode (fixture_response 204 []) < 400"
    by (simp_all add: fixture_response_simps)
  from Do_decodes_empty_body [OF sent body band, where unm = "fixture_Unmarshal []"
      and t = "\<lparr>DeleteResponse.Status = [], Message = []\<rparr>"]
  show ?thesis
    by (simp add: fixture_Unmarshal_def fixture_syntax_error_def Header_Set_def canon_keys
        fixture_client_def)
qed


subsection \<open>Facts about the API key service\<close>

lemma Create_after_Do:
  assumes "fst (utho_NewRequest env (service.client s) ''POST'' ''api/generate'' [Some params])
      = Some req"
    and "http_Client_Do env (client.client (service.client s))
      (req\<lparr>Request.Header := Header_Set (Request.Header req) ''Authorization''
         (''Bearer '' @ token (service.client s))\<rparr>) = Inr resp"
    and "Response.Body resp = Some (Body_bytes data)"
    and "200 \<le> StatusCode resp" and "StatusCode resp < 400"
    and "unm data \<lparr>CreateApiKeyResponse.Status = '''', Apikey = '''', Message = ''''\<rparr> = (t, None)"
  shows "Create env unm s params =
      Return (if CreateApiKeyResponse.Status t \<noteq> ''success'' \<and> CreateApiKeyResponse.Status t \<noteq> ''''
              then (None, Some (errorString (CreateApiKeyResponse.Message t)))
              else (Some t, None))"
  using assms(1,6) Do_in_band [OF assms(2-5), of unm]
  by (simp add: Create_def Let_def after_Do_def)

lemma List_after_Do:
  assumes "fst (utho_NewRequest env (service.client s) ''GET'' ''api'' []) = Some req"
    and "http_Client_Do env (client.client (service.client s))
      (req\<lparr>Request.Header := Header_Set (Request.Header req) ''Authorization''
         (''Bearer '' @ token (service.client s))\<rparr>) = Inr resp"
    and "Response.Body resp = Some (Body_bytes data)"
    and "200 \<le> StatusCode resp" and "StatusCode resp < 400"
    and "unm data \<lparr>ApiKeys.Status = '''', Message = '''', API = None\<rparr> = (t, None)"
  shows "List env unm s =
      Return (if ApiKeys.Status t \<noteq> ''success'' \<and> ApiKeys.Status t \<noteq> ''''
              then (None, Some (errorString (ApiKeys.Message t)))
              else (API t, None))"
  using assms(1,6) Do_in_band [OF assms(2-5), of unm]
  by (simp add: List_def Let_def after_Do_def)

lemma Delete_after_Do:
  assumes "fst (utho_NewRequest env (service.client s) ''DELETE'' (''api/'' @ apiKeyId @ ''/delete'') [])
      = Some req"
    and "http_Client_Do env (client.client (service.client s))
      (req\<lparr>Request.Header := Header_Set (Request.Header req) ''Authorization''
         (''Bearer '' @ token (service.client s))\<rparr>) = Inr resp"
    and "Response.Body resp = Some (Body_bytes data)"
    and "200 \<le> StatusCode resp" and "StatusCode resp < 400"
    and "unm data \<lparr>DeleteResponse.Status = '''', Message = ''''\<rparr> = (t, None)"
  shows "Delete env unm s apiKeyId =
      Return (if DeleteResponse.Status t \<noteq> ''success'' \<and> DeleteResponse.Status t \<noteq> ''''
              then (None, Some (errorString (DeleteResponse.Message t)))
              else (Some t, None))"
  using assms(1,6) Do_in_band [OF assms(2-5), of unm]
  by (simp add: Delete_def Let_def after_Do_def)

lemma service_client_ApiKey: "service.client (ApiKey c) = c"
  by (simp add: ApiKey_def)

lemma fixture_token: "token (fixture_client resp) = ''token''"
  by (simp add: fixture_client_def)

lemma fixture_request_Create:
  "fst (utho_NewRequest fixture_env (fixture_client resp) ''POST'' ''api/generate''
      [Some \<lparr>CreateApiKeyParams.Name = ''k'', Write = ''1''\<rparr>])
    = Some \<lparr>Method = ''POST'', URL = fixture_URL ''https'' ''api.utho.com'' ''/v2/api/generate'',
        Header = Header_Set Map.empty ''X-Clerk-SDK'' (''go/'' @ utho_version),
        Body = Some ''{\"name\":\"k\",\"write\":\"1\"}''\<rparr>"
  by (subst fixture_utho_NewRequest [where buf = "Some ''{\"name\":\"k\",\"write\":\"1\"}''"])
    (simp_all add: encode_body_def fixture_env_def fixture_url_Parse_def)

lemma fixture_request_List:
  "fst (utho_NewRequest fixture_env (fixture_client resp) ''GET'' ''api'' [])
    = Some \<lparr>Method = ''GET'', URL = fixture_URL ''https'' ''api.utho.com'' ''/v2/api'',
        Header = Header_Set Map.empty ''X-Clerk-SDK'' (''go/'' @ utho_version),
        Body = None\<rparr>"
  by (subst fixture_utho_NewRequest [where buf = None])
    (simp_all add: encode_body_def fixture_env_def fixture_url_Parse_def)

lemma fixture_request_Delete:
  "fst (utho_NewRequest fixture_env (fixture_client resp) ''DELETE'' (''api/'' @ ''176300'' @ ''/delete'') [])
    = Some \<lparr>Method = ''DELETE'', URL = fixture_URL ''https'' ''api.utho.com'' ''/v2/api/176300/delete'',
        Header = Header_Set Map.empty ''X-Clerk-SDK'' (''go/'' @ utho_version),
        Body = None\<rparr>"
  by (subst fixture_utho_NewRequest [where buf = None])
    (simp_all add: encode_body_def fixture_env_def fixture_url_Parse_def)

lemma fixture_bodies_differ: "fixture_plain_body \<noteq> fixture_failed_body"
  by (simp add: fixture_plain_body_def fixture_failed_body_def)

lemma Do_nil_request: "Do env unm c None v = Panic nil_dereference"
  by (simp add: Do_def)

subsection \<open>A failed status in a successful response\<close>

text \<open>
  C2. Let the request of an operation be built, let the transport answer it with a
  response in the success band, and let the body decode without error into a value whose
  status is \<open>failed\<close> and whose message is \<open>X\<close>. Then each of \<open>Create\<close>, \<open>List\<close> and
  \<open>Delete\<close> returns the nil result together with the error \<open>errors.New(X)\<close>, whose
  message is \<open>X\<close>.
\<close>

theorem ApiKeyService_failed_status:
  "(fst (utho_NewRequest env (service.client s) ''POST'' ''api/generate'' [Some params]) = Some reqC
    \<and> http_Client_Do env (client.client (service.client s))
        (reqC\<lparr>Request.Header := Header_Set (Request.Header reqC) ''Authorization''
           (''Bearer '' @ token (service.client s))\<rparr>) = Inr resp
    \<and> 200 \<le> StatusCode resp \<and> StatusCode resp < 400
    \<and> Response.Body resp = Some (Body_bytes data)
    \<and> unmC data \<lparr>CreateApiKeyResponse.Status = '''', Apikey = '''', Message = ''''\<rparr> = (created, None)
    \<and> CreateApiKeyResponse.Status created = ''failed''
    \<and> CreateApiKeyResponse.Message created = X
    \<longrightarrow> Create env unmC s params = Return (None, Some (errorString X)))
   \<and> (fst (utho_NewRequest env (service.client s) ''GET'' ''api'' []) = Some reqL
    \<and> http_Client_Do env (client.client (service.client s))
        (reqL\<lparr>Request.Header := Header_Set (Request.Header reqL) ''Authorization''
           (''Bearer '' @ token (service.client s))\<rparr>) = Inr resp
    \<and> 200 \<le> StatusCode resp \<and> StatusCode resp < 400
    \<and> Response.Body resp = Some (Body_bytes data)
    \<and> unmL data \<lparr>ApiKeys.Status = '''', Message = '''', API = None\<rparr> = (listed, None)
    \<and> ApiKeys.Status listed = ''failed''
    \<and> ApiKeys.Message listed = X
    \<longrightarrow> List env unmL s = Return (None, Some (errorString X)))
   \<and> (fst (utho_NewRequest env (service.client s) ''DELETE'' (''api/'' @ apiKeyId @ ''/delete'') [])
        = Some reqD
    \<and> http_Client_Do env (client.client (service.client s))
        (reqD\<lparr>Request.Header := Header_Set (Request.Header reqD) ''Authorization''
           (''Bearer '' @ token (service.client s))\<rparr>) = Inr resp
    \<and> 200 \<le> StatusCode resp \<and> StatusCode resp < 400
    \<and> Response.Body resp = Some (Body_bytes data)
    \<and> unmD data \<lparr>DeleteResponse.Status = '''', Message = ''''\<rparr> = (deleted, None)
    \<and> DeleteResponse.Status deleted = ''failed''
    \<and> DeleteResponse.Message deleted = X
    \<longrightarrow> Delete env unmD s apiKeyId = Return (None, Some (errorString X)))"
proof (intro conjI impI; elim conjE)
  assume "fst (utho_NewRequest env (service.client s) ''POST'' ''api/generate'' [Some params]) = Some reqC"
    "http_Client_Do env (client.client (service.client s))
        (reqC\<lparr>Request.Header := Header_Set (Request.Header reqC) ''Authorization''
           (''Bearer '' @ token (service.client s))\<rparr>) = Inr resp"
    "200 \<le> StatusCode resp" "StatusCode resp < 400"
    "Response.Body resp = Some (Body_bytes data)"
    "unmC data \<lparr>CreateApiKeyResponse.Status = '''', Apikey = '''', Message = ''''\<rparr> = (created, None)"
    "CreateApiKeyResponse.Status created = ''failed''"
    "CreateApiKeyResponse.Message created = X"
  then show "Create env unmC s params = Return (None, Some (errorString X))"
    by (simp add: Create_after_Do)
next
  assume "fst (utho_NewRequest env (service.client s) ''GET'' ''api'' []) = Some reqL"
    "http_Client_Do env (client.client (service.client s))
        (reqL\<lparr>Request.Header := Header_Set (Request.Header reqL) ''Authorization''
           (''Bearer '' @ token (service.client s))\<rparr>) = Inr resp"
    "200 \<le> StatusCode resp" "StatusCode resp < 400"
    "Response.Body resp = Some (Body_bytes data)"
    "unmL data \<lparr>ApiKeys.Status = '''', Message = '''', API = None\<rparr> = (listed, None)"
    "ApiKeys.Status listed = ''failed''"
    "ApiKeys.Message listed = X"
  then show "List env unmL s = Return (None, Some (errorString X))"
    by (simp add: List_after_Do)
next
  assume "fst (utho_NewRequest env (service.client s) ''DELETE'' (''api/'' @ apiKeyId @ ''/delete'') [])
        = Some reqD"
    "http_Client_Do env (client.client (service.client s))
        (reqD\<lparr>Request.Header := Header_Set (Request.Header reqD) ''Authorization''
           (''Bearer '' @ token (service.client s))\<rparr>) = Inr resp"
    "200 \<le> StatusCode resp" "StatusCode resp < 400"
    "Response.Body resp = Some (Body_bytes data)"
    "unmD data \<lparr>DeleteResponse.Status = '''', Message = ''''\<rparr> = (deleted, None)"
    "DeleteResponse.Status deleted = ''failed''"
    "DeleteResponse.Message deleted = X"
  then show "Delete env unmD s apiKeyId = Return (None, Some (errorString X))"
    by (simp add: Delete_after_Do)
qed

theorem ApiKeyService_failed_status_witness:
  "Create fixture_env fixture_Unmarshal_CreateApiKeyResponse
      (ApiKey (fixture_client (fixture_response 200 fixture_failed_body)))
      \<lparr>CreateApiKeyParams.Name = ''k'', Write = ''1''\<rparr>
     = Return (None, Some (errorString ''quota exceeded''))
   \<and> List fixture_env fixture_Unmarshal_ApiKeys
      (ApiKey (fixture_client (fixture_response 200 fixture_failed_body)))
     = Return (None, Some (errorString ''quota exceeded''))
   \<and> Delete fixture_env fixture_Unmarshal_DeleteResponse
      (ApiKey (fixture_client (fixture_response 200 fixture_failed_body))) ''176300''
     = Return (None, Some (errorString ''quota exceeded''))"
proof -
  let ?resp = "fixture_response 200 fixture_failed_body"
  let ?s = "ApiKey (fixture_client ?resp)"
  have c: "service.client ?s = fixture_client ?resp"
    by (rule service_client_ApiKey)
  have band: "200 \<le> StatusCode ?resp \<and> StatusCode ?resp < 400
      \<and> Response.Body ?resp = Some (Body_bytes fixture_failed_body)"
    by (simp add: fixture_response_simps)
  have decC: "fixture_Unmarshal_CreateApiKeyResponse fixture_failed_body
      \<lparr>CreateApiKeyResponse.Status = '''', Apikey = '''', Message = ''''\<rparr>
      = (\<lparr>CreateApiKeyResponse.Status = ''failed'', Apikey = '''', Message = ''quota exceeded''\<rparr>, None)"
    by (simp add: fixture_Unmarshal_CreateApiKeyResponse_def fixture_Unmarshal_def)
  have decL: "fixture_Unmarshal_ApiKeys fixture_failed_body
      \<lparr>ApiKeys.Status = '''', Message = '''', API = None\<rparr>
      = (\<lparr>ApiKeys.Status = ''failed'', Message = ''quota exceeded'', API = None\<rparr>, None)"
    by (simp add: fixture_Unmarshal_ApiKeys_def fixture_Unmarshal_def)
  have decD: "fixture_Unmarshal_DeleteResponse fixture_failed_body
      \<lparr>DeleteResponse.Status = '''', Message = ''''\<rparr>
      = (\<lparr>DeleteResponse.Status = ''failed'', Message = ''quota exceeded''\<rparr>, None)"
    by (simp add: fixture_Unmarshal_DeleteResponse_def fixture_Unmarshal_def)
  from ApiKeyService_failed_status [where env = fixture_env and s = ?s and resp = ?resp
      and data = fixture_failed_body and X = "''quota exceeded''"
      and params = "\<lparr>CreateApiKeyParams.Name = ''k'', Write = ''1''\<rparr>"
      and unmC = fixture_Unmarshal_CreateApiKeyResponse
      and unmL = fixture_Unmarshal_ApiKeys
      and unmD = fixture_Unmarshal_DeleteResponse
      and apiKeyId = "''176300''"
      and created = "\<lparr>CreateApiKeyResponse.Status = ''failed'', Apikey = '''',
        Message = ''quota exceeded''\<rparr>"
      and listed = "\<lparr>ApiKeys.Status = ''failed'', Message = ''quota exceeded'', API = None\<rparr>"
      and deleted = "\<lparr>DeleteResponse.Status = ''failed'', Message = ''quota exceeded''\<rparr>"]
    band decC decL decD
  show ?thesis
    unfolding c
    by (simp add: fixture_request_Create fixture_request_List fixture_request_Delete
        fixture_client_Do del: append.simps)
qed

subsection \<open>An absent status\<close>

text \<open>
  C3. Under the same conditions on request, response and decoding, each operation
  returns the decoded result with a nil error when the status of the decoded value is
  empty (the field was absent) or \<open>success\<close>, and returns a nil result with the error
  made of the message for every other status: only an explicit status different from
  \<open>success\<close> becomes an error.
\<close>

theorem ApiKeyService_status_default:
  "(fst (utho_NewRequest env (service.client s) ''POST'' ''api/generate'' [Some params]) = Some reqC
    \<and> http_Client_Do env (client.client (service.client s))
        (reqC\<lparr>Request.Header := Header_Set (Request.Header reqC) ''Authorization''
           (''Bearer '' @ token (service.client s))\<rparr>) = Inr resp
    \<and> 200 \<le> StatusCode resp \<and> StatusCode resp < 400
    \<and> Response.Body resp = Some (Body_bytes data)
    \<and> unmC data \<lparr>CreateApiKeyResponse.Status = '''', Apikey = '''', Message = ''''\<rparr> = (created, None)
    \<longrightarrow> Create env unmC s params =
          Return (if CreateApiKeyResponse.Status created = ''''
                     \<or> CreateApiKeyResponse.Status created = ''success''
                  then (Some created, None)
                  else (None, Some (errorString (CreateApiKeyResponse.Message created)))))
   \<and> (fst (utho_NewRequest env (service.client s) ''GET'' ''api'' []) = Some reqL
    \<and> http_Client_Do env (client.client (service.client s))
        (reqL\<lparr>Request.Header := Header_Set (Request.Header reqL) ''Authorization''
           (''Bearer '' @ token (service.client s))\<rparr>) = Inr resp
    \<and> 200 \<le> StatusCode resp \<and> StatusCode resp < 400
    \<and> Response.Body resp = Some (Body_bytes data)
    \<and> unmL data \<lparr>ApiKeys.Status = '''', Message = '''', API = None\<rparr> = (listed, None)
    \<longrightarrow> List env unmL s =
          Return (if ApiKeys.Status listed = '''' \<or> ApiKeys.Status listed = ''success''
                  then (API listed, None)
                  else (None, Some (errorString (ApiKeys.Message listed)))))
   \<and> (fst (utho_NewRequest env (service.client s) ''DELETE'' (''api/'' @ apiKeyId @ ''/delete'') [])
        = Some reqD
    \<and> http_Client_Do env (client.client (service.client s))
        (reqD\<lparr>Request.Header := Header_Set (Request.Header reqD) ''Authorization''
           (''Bearer '' @ token (service.client s))\<rparr>) = Inr resp
    \<and> 200 \<le> StatusCode resp \<and> StatusCode resp < 400
    \<and> Response.Body resp = Some (Body_bytes data)
    \<and> unmD data \<lparr>DeleteResponse.Status = '''', Message = ''''\<rparr> = (deleted, None)
    \<longrightarrow> Delete env unmD s apiKeyId =
          Return (if DeleteResponse.Status deleted = '''' \<or> DeleteResponse.Status deleted = ''success''
                  then (Some deleted, None)
                  else (None, Some (errorString (DeleteResponse.Message deleted)))))"
proof (intro conjI impI; elim conjE)
  assume "fst (utho_NewRequest env (service.client s) ''POST'' ''api/generate'' [Some params]) = Some reqC"
    "http_Client_Do env (client.client (service.client s))
        (reqC\<lparr>Request.Header := Header_Set (Request.Header reqC) ''Authorization''
           (''Bearer '' @ token (service.client s))\<rparr>) = Inr resp"
    "200 \<le> StatusCode resp" "StatusCode resp < 400"
    "Response.Body resp = Some (Body_bytes data)"
    "unmC data \<lparr>CreateApiKeyResponse.Status = '''', Apikey = '''', Message = ''''\<rparr> = (created, None)"
  then show "Create env unmC s params =
          Return (if CreateApiKeyResponse.Status created = ''''
                     \<or> CreateApiKeyResponse.Status created = ''success''
                  then (Some created, None)
                  else (None, Some (errorString (CreateApiKeyResponse.Message created))))"
    by (simp add: Create_after_Do)
next
  assume "fst (utho_NewRequest env (service.client s) ''GET'' ''api'' []) = Some reqL"
    "http_Client_Do env (client.client (service.client s))
        (reqL\<lparr>Request.Header := Header_Set (Request.Header reqL) ''Authorization''
           (''Bearer '' @ token (service.client s))\<rparr>) = Inr resp"
    "200 \<le> StatusCode resp" "StatusCode resp < 400"
    "Response.Body resp = Some (Body_bytes data)"
    "unmL data \<lparr>ApiKeys.Status = '''', Message = '''', API = None\<rparr> = (listed, None)"
  then show "List env unmL s =
          Return (if ApiKeys.Status listed = '''' \<or> ApiKeys.Status listed = ''success''
                  then (API listed, None)
                  else (None, Some (errorString (ApiKeys.Message listed))))"
    by (simp add: List_after_Do)
next
  assume "fst (utho_NewRequest env (service.client s) ''DELETE'' (''api/'' @ apiKeyId @ ''/delete'') [])
        = Some reqD"
    "http_Client_Do env (client.client (service.client s))
        (reqD\<lparr>Request.Header := Header_Set (Request.Header reqD) ''Authorization''
           (''Bearer '' @ token (service.client s))\<rparr>) = Inr resp"
    "200 \<le> StatusCode resp" "StatusCode resp < 400"
    "Response.Body resp = Some (Body_bytes data)"
    "unmD data \<lparr>DeleteResponse.Status = '''', Message = ''''\<rparr> = (deleted, None)"
  then show "Delete env unmD s apiKeyId =
          Return (if DeleteResponse.Status deleted = '''' \<or> DeleteResponse.Status deleted = ''success''
                  then (Some deleted, None)
                  else (None, Some (errorString (DeleteResponse.Message deleted))))"
    by (simp add: Delete_after_Do)
qed

theorem ApiKeyService_status_default_witness:
  "Create fixture_env fixture_Unmarshal_CreateApiKeyResponse
      (ApiKey (fixture_client (fixture_response 200 fixture_plain_body)))
      \<lparr>CreateApiKeyParams.Name = ''k'', Write = ''1''\<rparr>
     = Return (Some \<lparr>CreateApiKeyResponse.Status = '''', Apikey = ''secret'', Message = ''''\<rparr>, None)
   \<and> List fixture_env fixture_Unmarshal_ApiKeys
      (ApiKey (fixture_client (fixture_response 200 fixture_plain_body)))
     = Return (Some [], None)
   \<and> Delete fixture_env fixture_Unmarshal_DeleteResponse
      (ApiKey (fixture_client (fixture_response 200 fixture_plain_body))) ''176300''
     = Return (Some \<lparr>DeleteResponse.Status = '''', Message = ''''\<rparr>, None)"
proof -
  let ?resp = "fixture_response 200 fixture_plain_body"
  let ?s = "ApiKey (fixture_client ?resp)"
  have c: "service.client ?s = fixture_client ?resp"
    by (rule service_client_ApiKey)
  have band: "200 \<le> StatusCode ?resp \<and> StatusCode ?resp < 400
      \<and> Response.Body ?resp = Some (Body_bytes fixture_plain_body)"
    by (simp add: fixture_response_simps)
  have decC: "fixture_Unmarshal_CreateApiKeyResponse fixture_plain_body
      \<lparr>CreateApiKeyResponse.Status = '''', Apikey = '''', Message = ''''\<rparr>
      = (\<lparr>CreateApiKeyResponse.Status = '''', Apikey = ''secret'', Message = ''''\<rparr>, None)"
    by (simp add: fixture_Unmarshal_CreateApiKeyResponse_def fixture_Unmarshal_def
        fixture_bodies_differ)
  have decL: "fixture_Unmarshal_ApiKeys fixture_plain_body
      \<lparr>ApiKeys.Status = '''', Message = '''', API = None\<rparr>
      = (\<lparr>ApiKeys.Status = '''', Message = '''', API = Some []\<rparr>, None)"
    by (simp add: fixture_Unmarshal_ApiKeys_def fixture_Unmarshal_def fixture_bodies_differ)
  have decD: "fixture_Unmarshal_DeleteResponse fixture_plain_body
      \<lparr>DeleteResponse.Status = '''', Message = ''''\<rparr>
      = (\<lparr>DeleteResponse.Status = '''', Message = ''''\<rparr>, None)"
    by (simp add: fixture_Unmarshal_DeleteResponse_def fixture_Unmarshal_def fixture_bodies_differ)
  from ApiKeyService_status_default [where env = fixture_env and s = ?s and resp = ?resp
      and data = fixture_plain_body
      and params = "\<lparr>CreateApiKeyParams.Name = ''k'', Write = ''1''\<rparr>"
      and unmC = fixture_Unmarshal_CreateApiKeyResponse
      and unmL = fixture_Unmarshal_ApiKeys
      and unmD = fixture_Unmarshal_DeleteResponse
      and apiKeyId = "''176300''"
      and created = "\<lparr>CreateApiKeyResponse.Status = '''', Apikey = ''secret'', Message = ''''\<rparr>"
      and listed = "\<lparr>ApiKeys.Status = '''', Message = '''', API = Some []\<rparr>"
      and deleted = "\<lparr>DeleteResponse.Status = '''', Message = ''''\<rparr>"]
    band decC decL decD
  show ?thesis
    unfolding c
    by (simp add: fixture_request_Create fixture_request_List fixture_request_Delete
        fixture_client_Do del: append.simps)
qed

subsection \<open>The error of NewRequest\<close>

text \<open>
  C10. Each operation keeps the request that \<open>NewRequest\<close> returns and drops its error.
  Whenever \<open>NewRequest\<close> returns no request, the operation hands the nil request to
  \<open>Do\<close>, which dereferences it to set the authorisation header: the call panics, and
  the error of \<open>NewRequest\<close> does not reach the caller as an error value. For \<open>Delete\<close>
  this happens whenever \<open>url.Parse\<close> rejects the path made of the key's identifier, as
  it does for an identifier with an invalid percent escape.
\<close>

theorem NewRequest_error_dropped:
  "(fst (utho_NewRequest env (service.client s) ''POST'' ''api/generate'' [Some params]) = None
      \<longrightarrow> Create env unmC s params = Panic nil_dereference)
   \<and> (fst (utho_NewRequest env (service.client s) ''GET'' ''api'' []) = None
      \<longrightarrow> List env unmL s = Panic nil_dereference)
   \<and> (fst (utho_NewRequest env (service.client s) ''DELETE'' (''api/'' @ apiKeyId @ ''/delete'') [])
        = None
      \<longrightarrow> Delete env unmD s apiKeyId = Panic nil_dereference)
   \<and> (url_Parse env (''api/'' @ apiKeyId @ ''/delete'') = Inl err
      \<longrightarrow> utho_NewRequest env (service.client s) ''DELETE'' (''api/'' @ apiKeyId @ ''/delete'') []
            = (None, Some err)
          \<and> Delete env unmD s apiKeyId = Panic nil_dereference)"
  by (simp add: Create_def List_def Delete_def Do_nil_request utho_NewRequest_def URL_Parse_def
      del: append.simps)

theorem NewRequest_error_dropped_witness:
  "fst (utho_NewRequest fixture_env
          ((fixture_client (fixture_response 200 fixture_plain_body))
             \<lparr>baseURL := fixture_URL ''https'' ''api.utho.com'' ''/100%/''\<rparr>)
          ''POST'' ''api/generate'' [Some \<lparr>CreateApiKeyParams.Name = ''k'', Write = ''1''\<rparr>]) = None
   \<and> Create fixture_env fixture_Unmarshal_CreateApiKeyResponse
        (ApiKey ((fixture_client (fixture_response 200 fixture_plain_body))
             \<lparr>baseURL := fixture_URL ''https'' ''api.utho.com'' ''/100%/''\<rparr>))
        \<lparr>CreateApiKeyParams.Name = ''k'', Write = ''1''\<rparr> = Panic nil_dereference
   \<and> List fixture_env fixture_Unmarshal_ApiKeys
        (ApiKey ((fixture_client (fixture_response 200 fixture_plain_body))
             \<lparr>baseURL := fixture_URL ''https'' ''api.utho.com'' ''/100%/''\<rparr>))
        = Panic nil_dereference
   \<and> url_Parse fixture_env (''api/'' @ ''%zz'' @ ''/delete'') = Inl (lib_error ''invalid URL escape'')
   \<and> utho_NewRequest fixture_env (fixture_client (fixture_response 200 fixture_plain_body))
        ''DELETE'' (''api/'' @ ''%zz'' @ ''/delete'') []
       = (None, Some (lib_error ''invalid URL escape''))
   \<and> Delete fixture_env fixture_Unmarshal_DeleteResponse
        (ApiKey (fixture_client (fixture_response 200 fixture_plain_body))) ''%zz''
       = Panic nil_dereference"
proof -
  let ?c = "fixture_client (fixture_response 200 fixture_plain_body)"
  let ?c' = "?c\<lparr>baseURL := fixture_URL ''https'' ''api.utho.com'' ''/100%/''\<rparr>"
  let ?p = "\<lparr>CreateApiKeyParams.Name = ''k'', Write = ''1''\<rparr>"
  have nC: "fst (utho_NewRequest fixture_env (service.client (ApiKey ?c')) ''POST'' ''api/generate''
      [Some ?p]) = None"
    by (simp add: service_client_ApiKey utho_NewRequest_def URL_Parse_def http_NewRequest_def
        encode_body_def fixture_env_def fixture_url_Parse_def fixture_URL_def fixture_client_def)
  have nL: "fst (utho_NewRequest fixture_env (service.client (ApiKey ?c')) ''GET'' ''api'' []) = None"
    by (simp add: service_client_ApiKey utho_NewRequest_def URL_Parse_def http_NewRequest_def
        encode_body_def fixture_env_def fixture_url_Parse_def fixture_URL_def fixture_client_def)
  have bad: "url_Parse fixture_env (''api/'' @ ''%zz'' @ ''/delete'')
      = Inl (lib_error ''invalid URL escape'')"
    by (simp add: fixture_env_def fixture_url_Parse_def)
  note broken = NewRequest_error_dropped [where env = fixture_env and s = "ApiKey ?c'"
      and params = ?p and unmC = fixture_Unmarshal_CreateApiKeyResponse
      and unmL = fixture_Unmarshal_ApiKeys]
  note escaped = NewRequest_error_dropped [where env = fixture_env and s = "ApiKey ?c"
      and apiKeyId = "''%zz''" and err = "lib_error ''invalid URL escape''"
      and unmD = fixture_Unmarshal_DeleteResponse]
  have 1: "Create fixture_env fixture_Unmarshal_CreateApiKeyResponse (ApiKey ?c') ?p
      = Panic nil_dereference"
    using broken nC by blast
  have 2: "List fixture_env fixture_Unmarshal_ApiKeys (ApiKey ?c') = Panic nil_dereference"
    using broken nL by blast
  have 3: "utho_NewRequest fixture_env ?c ''DELETE'' (''api/'' @ ''%zz'' @ ''/delete'') []
       = (None, Some (lib_error ''invalid URL escape''))
     \<and> Delete fixture_env fixture_Unmarshal_DeleteResponse (ApiKey ?c) ''%zz''
       = Panic nil_dereference"
    using escaped bad unfolding service_client_ApiKey by blast
  from nC 1 2 bad 3 show ?thesis
    unfolding service_client_ApiKey by blast
qed


end
